theory Spec2Isabelle
  imports Complex_Main "HOL-Library.Sublist"
begin

section \<open>Modelling conventions\<close>

text \<open>
  The development embeds the orchestration core of the council node: the sovereign
  access guard (\<^verbatim>\<open>protected_repos.py\<close>), the per-agent admission state
  (\<^verbatim>\<open>agents/base_agent.py\<close>), the routing and redistribution of the chair
  (\<^verbatim>\<open>agents/tess.py\<close>), the ceremony controller (\<^verbatim>\<open>convening.py\<close>) and the
  diligence ledger (\<^verbatim>\<open>diligence_ledger.py\<close>).

  \<^item> Python \<^verbatim>\<open>str\<close> is \<^typ>\<open>string\<close>; every literal of the source is ASCII.
  \<^item> Python \<^verbatim>\<open>float\<close> is idealised as \<^typ>\<open>real\<close>: rounding is not modelled.
  \<^item> Python \<^verbatim>\<open>int\<close> is \<^typ>\<open>int\<close>.
  \<^item> \<^verbatim>\<open>datetime.utcnow()\<close> is an input of each operation that reads the clock
    (a \<^typ>\<open>real\<close> number of seconds).
  \<^item> A raised exception is the \<open>Inl\<close> branch of a sum.
  \<^item> A \<^verbatim>\<open>dict\<close> whose iteration order is observed is an association list in
    insertion order; otherwise it is a map.
  \<^item> Logging is dropped.
\<close>

section \<open>Strings\<close>

text \<open>\<^verbatim>\<open>s.split(sep)\<close> for a one-character separator: never empty.\<close>

fun split_sep :: "char \<Rightarrow> string \<Rightarrow> string list" where
  "split_sep sep [] = [[]]"
| "split_sep sep (c # cs) =
     (if c = sep then [] # split_sep sep cs
      else (case split_sep sep cs of [] \<Rightarrow> [[c]] | w # ws \<Rightarrow> (c # w) # ws))"

text \<open>\<^verbatim>\<open>sub in s\<close> on strings: \<open>sub\<close> occurs in \<open>s\<close> as a contiguous run.\<close>

fun starts_with :: "string \<Rightarrow> string \<Rightarrow> bool" where
  "starts_with s [] = True"
| "starts_with [] (p # ps) = False"
| "starts_with (c # cs) (p # ps) = (c = p \<and> starts_with cs ps)"

fun str_contains :: "string \<Rightarrow> string \<Rightarrow> bool" where
  "str_contains sub [] = (sub = [])"
| "str_contains sub (c # cs) = (starts_with (c # cs) sub \<or> str_contains sub cs)"

text \<open>
  \<^verbatim>\<open>fnmatch.fnmatch(name, pattern)\<close> of the standard library on a POSIX host (no case
  folding): \<^verbatim>\<open>*\<close> matches any run of characters, \<^verbatim>\<open>?\<close> any one character, every
  other character itself. Bracket expressions are not modelled; no pattern of
  \<^verbatim>\<open>PROTECTED_PATTERNS\<close> has one.
\<close>

fun fnmatch :: "string \<Rightarrow> string \<Rightarrow> bool" where
  "fnmatch [] [] = True"
| "fnmatch (c # cs) [] = False"
| "fnmatch [] (p # ps) = (p = CHR ''*'' \<and> fnmatch [] ps)"
| "fnmatch (c # cs) (p # ps) =
     (if p = CHR ''*'' then fnmatch (c # cs) ps \<or> fnmatch cs (p # ps)
      else if p = CHR ''?'' then fnmatch cs ps
      else p = c \<and> fnmatch cs ps)"

section \<open>Sovereign territory: \<^verbatim>\<open>protected_repos.py\<close>\<close>

definition SOVEREIGN_TERRITORY :: "string list" where
  "SOVEREIGN_TERRITORY = [''sofie-llama-backend'', ''sofie-backend'']"

definition PROTECTED_PATTERNS :: "string list" where
  "PROTECTED_PATTERNS = [''sofie-*'', ''*sofie*'']"

text \<open>
  The exceptions of the source that the model can raise. \<open>SovereignTerritoryError\<close>
  carries \<^verbatim>\<open>repo_name\<close> and \<^verbatim>\<open>attempted_action\<close>; its message is a function of the
  two and is not stored. The other constructors are Python's own exceptions.
\<close>

datatype error =
    SovereignTerritoryError string string
  | KeyError string
  | AttributeError
  | ValueError
  | ZeroDivisionError
  | TypeError

text \<open>The loop over \<^verbatim>\<open>PROTECTED_PATTERNS\<close>, returning at the first match.\<close>

fun matches_any_pattern :: "string \<Rightarrow> string list \<Rightarrow> bool" where
  "matches_any_pattern repo_name [] = False"
| "matches_any_pattern repo_name (pattern # rest) =
     (if fnmatch repo_name pattern then True else matches_any_pattern repo_name rest)"

definition is_sovereign_territory :: "string \<Rightarrow> bool" where
  "is_sovereign_territory repo_name =
     (let repo_name' =
            (if CHR ''/'' \<in> set repo_name then last (split_sep CHR ''/'' repo_name)
             else repo_name)
      in if repo_name' \<in> set SOVEREIGN_TERRITORY then True
         else matches_any_pattern repo_name' PROTECTED_PATTERNS)"

definition validate_repo_access :: "string \<Rightarrow> string \<Rightarrow> error + unit" where
  "validate_repo_access repo_name attempted_action =
     (if is_sovereign_territory repo_name
      then Inl (SovereignTerritoryError repo_name attempted_action)
      else Inr ())"

definition get_permitted_repos :: "string list \<Rightarrow> string list" where
  "get_permitted_repos all_repos = [repo \<leftarrow> all_repos. \<not> is_sovereign_territory repo]"

definition PERMITTED_ECOSYSTEM_REPOS :: "string list" where
  "PERMITTED_ECOSYSTEM_REPOS =
     [''pollen'', ''sandironratio-node'', ''terracare-ledger'', ''terracare-bridge'',
      ''hive-api'', ''heartware'', ''harmonic-balance'', ''terratrek'', ''nectar-tracker'',
      ''sofie-dashboard'', ''wellness-bridge'']"

definition get_ecosystem_build_targets :: "string list" where
  "get_ecosystem_build_targets = PERMITTED_ECOSYSTEM_REPOS"

text \<open>
  The bare name in the words of the specification: what follows the last \<^verbatim>\<open>/\<close> of the
  name, the whole name when it has none.
\<close>

definition bare_name :: "string \<Rightarrow> string" where
  "bare_name name = rev (takeWhile (\<lambda>c. c \<noteq> CHR ''/'') (rev name))"

subsection \<open>Facts about the string functions\<close>

lemma split_sep_not_Nil: "split_sep sep s \<noteq> []"
  by (induction s) (auto split: list.splits)

lemma last_split_sep_no_sep:
  "sep \<notin> set s \<Longrightarrow> split_sep sep s = [s]"
  by (induction s) auto

lemma split_sep_single:
  "split_sep sep s = [w] \<Longrightarrow> sep \<notin> set s"
  using split_sep_not_Nil [of sep]
  by (induction s arbitrary: w) (auto split: if_splits list.splits)

lemma last_split_sep_append:
  "sep \<notin> set t \<Longrightarrow> last (split_sep sep (s @ sep # t)) = t"
proof (induction s)
  case Nil
  then show ?case by (simp add: last_split_sep_no_sep)
next
  case (Cons c s)
  show ?case
  proof (cases "c = sep")
    case True
    then show ?thesis
      using Cons split_sep_not_Nil [of sep "s @ sep # t"] by simp
  next
    case False
    obtain w ws where sp: "split_sep sep (s @ sep # t) = w # ws"
      using split_sep_not_Nil [of sep "s @ sep # t"]
      by (cases "split_sep sep (s @ sep # t)") auto
    have "ws \<noteq> []"
    proof
      assume "ws = []"
      with sp have "split_sep sep (s @ sep # t) = [w]" by simp
      then have "sep \<notin> set (s @ sep # t)" by (rule split_sep_single)
      then show False by simp
    qed
    then show ?thesis using Cons sp False by simp
  qed
qed

lemma bare_name_no_slash: "CHR ''/'' \<notin> set name \<Longrightarrow> bare_name name = name"
proof -
  assume "CHR ''/'' \<notin> set name"
  then have "\<forall>x \<in> set (rev name). x \<noteq> CHR ''/''" by auto
  then have tw: "takeWhile (\<lambda>c. c \<noteq> CHR ''/'') (rev name) = rev name"
    by (simp only: takeWhile_eq_all_conv)
  show ?thesis unfolding bare_name_def by (simp only: tw rev_rev_ident)
qed

lemma last_split_sep_bare_name:
  assumes "CHR ''/'' \<in> set name"
  shows "last (split_sep CHR ''/'' name) = bare_name name"
proof -
  let ?P = "\<lambda>c. c \<noteq> CHR ''/''"
  let ?t = "rev (takeWhile ?P (rev name))"
  let ?d = "dropWhile ?P (rev name)"
  have rn: "rev name = takeWhile ?P (rev name) @ ?d" by simp
  from assms have "?d \<noteq> []" by (simp add: dropWhile_eq_Nil_conv)
  then obtain x xs where d: "?d = x # xs" by (cases ?d) auto
  then have "\<not> ?P x" using hd_dropWhile [of ?P "rev name"] by fastforce
  then have x: "x = CHR ''/''" by simp
  have "rev (rev name) = rev (takeWhile ?P (rev name) @ ?d)"
    by (simp only: takeWhile_dropWhile_id)
  then have "name = rev ?d @ ?t"
    by (simp only: rev_append rev_rev_ident)
  then have name: "name = rev xs @ CHR ''/'' # ?t" using d x by simp
  have "CHR ''/'' \<notin> set ?t"
    using set_takeWhileD [of "CHR ''/''" ?P "rev name"] by auto
  then have "last (split_sep CHR ''/'' (rev xs @ CHR ''/'' # ?t)) = ?t"
    by (rule last_split_sep_append)
  with name show ?thesis by (simp add: bare_name_def)
qed

lemma matches_any_pattern_list_ex:
  "matches_any_pattern n ps = list_ex (fnmatch n) ps"
  by (induction ps) auto

lemma fnmatch_star_all: "fnmatch s ''*''"
  by (induction s) auto

lemma starts_with_append: "starts_with (p @ s) p"
  by (induction p) auto

lemma starts_with_iff: "starts_with s p = (\<exists>t. s = p @ t)"
  by (induction s p rule: starts_with.induct) auto

lemma str_contains_iff: "str_contains sub s = (\<exists>ps ss. s = ps @ sub @ ss)"
proof (induction s)
  case Nil
  then show ?case by auto
next
  case (Cons c cs)
  show ?case
  proof
    assume "str_contains sub (c # cs)"
    then consider "starts_with (c # cs) sub" | "str_contains sub cs" by auto
    then show "\<exists>ps ss. c # cs = ps @ sub @ ss"
    proof cases
      case 1
      then obtain t where "c # cs = sub @ t" by (auto simp: starts_with_iff)
      then have "c # cs = [] @ sub @ t" by simp
      then show ?thesis by blast
    next
      case 2
      then obtain ps ss where "cs = ps @ sub @ ss" using Cons.IH by auto
      then have "c # cs = (c # ps) @ sub @ ss" by simp
      then show ?thesis by blast
    qed
  next
    assume "\<exists>ps ss. c # cs = ps @ sub @ ss"
    then obtain ps ss where e: "c # cs = ps @ sub @ ss" by auto
    show "str_contains sub (c # cs)"
    proof (cases ps)
      case Nil
      with e have "starts_with (c # cs) sub" by (simp add: starts_with_iff)
      then show ?thesis by simp
    next
      case (Cons a as)
      with e have "cs = as @ sub @ ss" by simp
      then have "str_contains sub cs" using Cons.IH by auto
      then show ?thesis by simp
    qed
  qed
qed

lemma fnmatch_sofie_infix: "fnmatch (ps @ ''sofie'' @ ss) ''*sofie*''"
proof (induction ps)
  case Nil
  have "fnmatch (''sofie'' @ ss) ''sofie*''"
    by (simp add: fnmatch_star_all)
  then show ?case by simp
next
  case (Cons a ps)
  then show ?case by simp
qed

lemma str_contains_sublist: "str_contains sub s = sublist sub s"
  by (simp add: str_contains_iff sublist_def)

lemma is_sovereign_territory_bare:
  "is_sovereign_territory name =
     (bare_name name \<in> set SOVEREIGN_TERRITORY \<or>
      matches_any_pattern (bare_name name) PROTECTED_PATTERNS)"
proof (cases "CHR ''/'' \<in> set name")
  case True
  then show ?thesis
    by (simp add: is_sovereign_territory_def last_split_sep_bare_name Let_def)
next
  case False
  then show ?thesis
    by (simp add: is_sovereign_territory_def bare_name_no_slash Let_def)
qed

lemma sofie_dashboard_sovereign: "is_sovereign_territory ''sofie-dashboard''"
  by (simp add: is_sovereign_territory_def SOVEREIGN_TERRITORY_def PROTECTED_PATTERNS_def)

subsection \<open>The access guard\<close>

text \<open>
  C1: for every repository name, \<open>is_sovereign_territory\<close> reduces an owner-prefixed
  name to its bare name (what follows the last slash) and then answers true exactly when
  the bare name is one of the protected names or matches one of the protected glob
  patterns. In particular \<open>sofie-llama-backend\<close> is protected, with and without an
  owner prefix, and \<open>pollen\<close> is not.
\<close>

theorem is_sovereign_territory_exact:
  "is_sovereign_territory name =
     (bare_name name \<in> set SOVEREIGN_TERRITORY \<or>
      list_ex (fnmatch (bare_name name)) PROTECTED_PATTERNS)
   \<and> is_sovereign_territory ''sofie-llama-backend''
   \<and> is_sovereign_territory ''owner/sofie-llama-backend''
   \<and> \<not> is_sovereign_territory ''pollen''"
proof -
  have general: "is_sovereign_territory name =
     (bare_name name \<in> set SOVEREIGN_TERRITORY \<or>
      list_ex (fnmatch (bare_name name)) PROTECTED_PATTERNS)"
    by (simp only: is_sovereign_territory_bare matches_any_pattern_list_ex)
  have plain: "is_sovereign_territory ''sofie-llama-backend''"
    by (simp add: is_sovereign_territory_def SOVEREIGN_TERRITORY_def)
  have prefixed: "is_sovereign_territory ''owner/sofie-llama-backend''"
    by (simp add: is_sovereign_territory_def SOVEREIGN_TERRITORY_def)
  have pollen: "\<not> is_sovereign_territory ''pollen''"
    by (simp add: is_sovereign_territory_def SOVEREIGN_TERRITORY_def PROTECTED_PATTERNS_def)
  from general plain prefixed pollen show ?thesis by blast
qed

text \<open>
  C2: for every name and action, \<open>validate_repo_access\<close> raises a
  \<open>SovereignTerritoryError\<close> carrying exactly that name and that action if and only
  if the name is sovereign territory, and otherwise returns normally; the function has no
  state to change. In particular the clone of \<open>sofie-backend\<close> is refused.
\<close>

theorem validate_repo_access_raises_iff:
  "(validate_repo_access name action = Inl (SovereignTerritoryError name action))
     = is_sovereign_territory name
   \<and> (\<exists>e. validate_repo_access name action = Inl e) = is_sovereign_territory name
   \<and> (validate_repo_access name action = Inr ()) = (\<not> is_sovereign_territory name)
   \<and> validate_repo_access ''sofie-backend'' ''clone''
       = Inl (SovereignTerritoryError ''sofie-backend'' ''clone'')"
proof -
  have "is_sovereign_territory ''sofie-backend''"
    by (simp add: is_sovereign_territory_def SOVEREIGN_TERRITORY_def)
  then show ?thesis
    by (simp add: validate_repo_access_def)
qed

text \<open>
  C10: every repository name whose bare name contains \<open>sofie\<close> is sovereign
  territory. So \<open>sofie-dashboard\<close>, a member of \<open>PERMITTED_ECOSYSTEM_REPOS\<close> that
  \<open>get_ecosystem_build_targets\<close> returns, is sovereign territory, and
  \<open>get_permitted_repos\<close> removes it from every list.
\<close>

theorem sofie_substring_sovereign:
  "(sublist ''sofie'' (bare_name name) \<longrightarrow> is_sovereign_territory name)
   \<and> ''sofie-dashboard'' \<in> set PERMITTED_ECOSYSTEM_REPOS
   \<and> ''sofie-dashboard'' \<in> set get_ecosystem_build_targets
   \<and> is_sovereign_territory ''sofie-dashboard''
   \<and> ''sofie-dashboard'' \<notin> set (get_permitted_repos all_repos)
   \<and> get_permitted_repos get_ecosystem_build_targets =
       [''pollen'', ''sandironratio-node'', ''terracare-ledger'', ''terracare-bridge'',
        ''hive-api'', ''heartware'', ''harmonic-balance'', ''terratrek'', ''nectar-tracker'',
        ''wellness-bridge'']"
proof -
  have sub: "sublist ''sofie'' (bare_name name) \<longrightarrow> is_sovereign_territory name"
  proof
    assume "sublist ''sofie'' (bare_name name)"
    then obtain ps ss where "bare_name name = ps @ ''sofie'' @ ss"
      by (auto simp: sublist_def)
    then have "fnmatch (bare_name name) ''*sofie*''"
      using fnmatch_sofie_infix [of ps ss] by simp
    then have "matches_any_pattern (bare_name name) PROTECTED_PATTERNS"
      by (simp add: PROTECTED_PATTERNS_def)
    then show "is_sovereign_territory name"
      by (simp add: is_sovereign_territory_bare)
  qed
  have listed: "''sofie-dashboard'' \<in> set PERMITTED_ECOSYSTEM_REPOS"
    by (simp add: PERMITTED_ECOSYSTEM_REPOS_def)
  have removed: "''sofie-dashboard'' \<notin> set (get_permitted_repos all_repos)"
    by (simp add: get_permitted_repos_def sofie_dashboard_sovereign)
  have filtered: "get_permitted_repos get_ecosystem_build_targets =
       [''pollen'', ''sandironratio-node'', ''terracare-ledger'', ''terracare-bridge'',
        ''hive-api'', ''heartware'', ''harmonic-balance'', ''terratrek'', ''nectar-tracker'',
        ''wellness-bridge'']"
    by (simp add: get_permitted_repos_def get_ecosystem_build_targets_def
        PERMITTED_ECOSYSTEM_REPOS_def is_sovereign_territory_def SOVEREIGN_TERRITORY_def
        PROTECTED_PATTERNS_def)
  from sub listed removed filtered sofie_dashboard_sovereign show ?thesis
    by (simp add: get_ecosystem_build_targets_def)
qed

theorem sofie_substring_sovereign_witness:
  "sublist ''sofie'' (bare_name ''DudeAdrian/my-sofie-tools'')
   \<and> is_sovereign_territory ''DudeAdrian/my-sofie-tools''"
proof -
  have "bare_name ''DudeAdrian/my-sofie-tools'' = ''my-'' @ ''sofie'' @ ''-tools''"
    by (simp add: bare_name_def)
  then have h: "sublist ''sofie'' (bare_name ''DudeAdrian/my-sofie-tools'')"
    unfolding sublist_def by blast
  with sofie_substring_sovereign [of "''DudeAdrian/my-sofie-tools''"]
  show ?thesis by blast
qed

section \<open>The diligence ledger: \<^verbatim>\<open>diligence_ledger.py\<close>\<close>

record NectarAccrualRecord =
  agent_name :: string
  task_id :: string
  task_title :: string
  repo :: string
  hours_worked :: real
  base_rate :: real
  quality_multiplier :: real
  nectar_accrued :: real
  timestamp :: string
  blockchain_eligible :: bool

text \<open>
  One value of \<^verbatim>\<open>agent_totals\<close>: the dictionary with the keys \<^verbatim>\<open>total_nectar\<close>,
  \<^verbatim>\<open>total_hours\<close> and \<^verbatim>\<open>tasks_completed\<close>.
\<close>

record agent_total =
  total_nectar :: real
  total_hours :: real
  tasks_completed :: int

text \<open>
  The \<^verbatim>\<open>task\<close> argument has type \<^verbatim>\<open>Any\<close>: what \<^verbatim>\<open>record_completion\<close> observes of
  it is whether it has the attributes \<^verbatim>\<open>id\<close>, \<^verbatim>\<open>title\<close> and \<^verbatim>\<open>repo\<close> (and their
  values), and \<^verbatim>\<open>str(task)\<close>.
\<close>

record task_ref =
  attr_id :: "string option"
  attr_title :: "string option"
  attr_repo :: "string option"
  str_of :: string

record DiligenceLedger =
  records :: "NectarAccrualRecord list"
  agent_totals :: "string \<rightharpoonup> agent_total"

text \<open>
  \<^verbatim>\<open>__init__\<close> with no ledger file on disk: \<^verbatim>\<open>_load\<close> leaves both caches empty.
\<close>

definition empty_ledger :: DiligenceLedger where
  "empty_ledger = \<lparr>records = [], agent_totals = Map.empty\<rparr>"

text \<open>
  \<^verbatim>\<open>record_completion\<close>. The argument \<open>now\<close> is \<^verbatim>\<open>datetime.utcnow().isoformat()\<close>.
  The model returns the ledger after the call; \<^verbatim>\<open>_save\<close> (which catches its own
  failures) and the returned summary of rounded figures are left out.
\<close>

definition record_completion ::
  "DiligenceLedger \<Rightarrow> string \<Rightarrow> task_ref \<Rightarrow> real \<Rightarrow> real \<Rightarrow> bool \<Rightarrow> bool \<Rightarrow> bool \<Rightarrow> bool
     \<Rightarrow> string \<Rightarrow> DiligenceLedger" where
  "record_completion self agent task hours quality_score tested wellness_approved
       cross_repo documented now =
     (let multiplier = quality_score;
          multiplier = (if tested then multiplier * 2.0 else multiplier);
          multiplier = (if wellness_approved then multiplier * 1.5 else multiplier);
          multiplier = (if cross_repo then multiplier * 2.0 else multiplier);
          multiplier = (if documented then multiplier * 1.3 else multiplier);
          rate = 10.0;
          nectar = hours * rate * multiplier;
          record = \<lparr>agent_name = agent,
                    task_id = (case attr_id task of Some i \<Rightarrow> i | None \<Rightarrow> str_of task),
                    task_title = (case attr_title task of Some t \<Rightarrow> t | None \<Rightarrow> str_of task),
                    repo = (case attr_repo task of Some r \<Rightarrow> r | None \<Rightarrow> ''unknown''),
                    hours_worked = hours,
                    base_rate = rate,
                    quality_multiplier = multiplier,
                    nectar_accrued = nectar,
                    timestamp = now,
                    blockchain_eligible = True\<rparr>;
          totals = (case agent_totals self agent of
                      None \<Rightarrow> \<lparr>total_nectar = 0, total_hours = 0, tasks_completed = 0\<rparr>
                    | Some t \<Rightarrow> t)
      in \<lparr>records = records self @ [record],
          agent_totals = (agent_totals self)(agent \<mapsto>
             \<lparr>total_nectar = total_nectar totals + nectar,
              total_hours = total_hours totals + hours,
              tasks_completed = tasks_completed totals + 1\<rparr>)\<rparr>)"

text \<open>The arguments of one call of \<^verbatim>\<open>record_completion\<close>, and a sequence of calls.\<close>

record completion_call =
  call_agent :: string
  call_task :: task_ref
  call_hours :: real
  call_quality :: real
  call_tested :: bool
  call_wellness_approved :: bool
  call_cross_repo :: bool
  call_documented :: bool
  call_now :: string

definition apply_call :: "DiligenceLedger \<Rightarrow> completion_call \<Rightarrow> DiligenceLedger" where
  "apply_call l c =
     record_completion l (call_agent c) (call_task c) (call_hours c) (call_quality c)
       (call_tested c) (call_wellness_approved c) (call_cross_repo c) (call_documented c)
       (call_now c)"

fun record_all :: "DiligenceLedger \<Rightarrow> completion_call list \<Rightarrow> DiligenceLedger" where
  "record_all l [] = l"
| "record_all l (c # cs) = record_all (apply_call l c) cs"

text \<open>The records of one agent, and the totals that the entry set determines.\<close>

definition records_of :: "DiligenceLedger \<Rightarrow> string \<Rightarrow> NectarAccrualRecord list" where
  "records_of l a = [r \<leftarrow> records l. agent_name r = a]"

definition entry_totals :: "DiligenceLedger \<Rightarrow> string \<Rightarrow> agent_total option" where
  "entry_totals l a =
     (if records_of l a = [] then None
      else Some \<lparr>total_nectar = sum_list (map nectar_accrued (records_of l a)),
                 total_hours = sum_list (map hours_worked (records_of l a)),
                 tasks_completed = int (length (records_of l a))\<rparr>)"

subsection \<open>Totals follow the entries\<close>

definition totals_or_zero :: "DiligenceLedger \<Rightarrow> string \<Rightarrow> agent_total" where
  "totals_or_zero l a =
     (case agent_totals l a of
        None \<Rightarrow> \<lparr>total_nectar = 0, total_hours = 0, tasks_completed = 0\<rparr>
      | Some t \<Rightarrow> t)"

lemma record_completion_shape:
  "\<exists>r. record_completion l a t h q te w c d n =
         \<lparr>records = records l @ [r],
          agent_totals = (agent_totals l)(a \<mapsto>
            \<lparr>total_nectar = total_nectar (totals_or_zero l a) + nectar_accrued r,
             total_hours = total_hours (totals_or_zero l a) + h,
             tasks_completed = tasks_completed (totals_or_zero l a) + 1\<rparr>)\<rparr>
       \<and> agent_name r = a \<and> hours_worked r = h"
  by (simp add: record_completion_def Let_def totals_or_zero_def)

lemma entry_totals_step:
  assumes "agent_totals l = entry_totals l"
  shows "agent_totals (record_completion l a t h q te w c d n)
           = entry_totals (record_completion l a t h q te w c d n)"
proof
  fix b
  let ?l' = "record_completion l a t h q te w c d n"
  obtain r where shape: "?l' =
         \<lparr>records = records l @ [r],
          agent_totals = (agent_totals l)(a \<mapsto>
            \<lparr>total_nectar = total_nectar (totals_or_zero l a) + nectar_accrued r,
             total_hours = total_hours (totals_or_zero l a) + h,
             tasks_completed = tasks_completed (totals_or_zero l a) + 1\<rparr>)\<rparr>"
    and r: "agent_name r = a" "hours_worked r = h"
    using record_completion_shape [of l a t h q te w c d n] by blast
  have recs: "records ?l' = records l @ [r]" by (simp add: shape)
  have tot: "agent_totals ?l' = (agent_totals l)(a \<mapsto>
            \<lparr>total_nectar = total_nectar (totals_or_zero l a) + nectar_accrued r,
             total_hours = total_hours (totals_or_zero l a) + h,
             tasks_completed = tasks_completed (totals_or_zero l a) + 1\<rparr>)"
    by (simp add: shape)
  show "agent_totals ?l' b = entry_totals ?l' b"
  proof (cases "b = a")
    case False
    then have "records_of ?l' b = records_of l b"
      using r recs by (simp add: records_of_def)
    then have "entry_totals ?l' b = entry_totals l b" by (simp add: entry_totals_def)
    moreover have "agent_totals ?l' b = agent_totals l b" using False tot by simp
    ultimately show ?thesis using assms by simp
  next
    case True
    have ro: "records_of ?l' a = records_of l a @ [r]"
      using r recs by (simp add: records_of_def)
    show ?thesis
    proof (cases "records_of l a = []")
      case True
      then have "agent_totals l a = None" using assms by (simp add: entry_totals_def)
      then have "totals_or_zero l a = \<lparr>total_nectar = 0, total_hours = 0, tasks_completed = 0\<rparr>"
        by (simp add: totals_or_zero_def)
      then show ?thesis using \<open>b = a\<close> tot ro True r by (simp add: entry_totals_def)
    next
      case False
      then have "agent_totals l a = Some
          \<lparr>total_nectar = sum_list (map nectar_accrued (records_of l a)),
           total_hours = sum_list (map hours_worked (records_of l a)),
           tasks_completed = int (length (records_of l a))\<rparr>"
        using assms by (simp add: entry_totals_def)
      then have "totals_or_zero l a =
          \<lparr>total_nectar = sum_list (map nectar_accrued (records_of l a)),
           total_hours = sum_list (map hours_worked (records_of l a)),
           tasks_completed = int (length (records_of l a))\<rparr>"
        by (simp add: totals_or_zero_def)
      then show ?thesis using \<open>b = a\<close> tot ro r by (simp add: entry_totals_def)
    qed
  qed
qed

lemma entry_totals_record_all:
  "agent_totals l = entry_totals l \<Longrightarrow>
     agent_totals (record_all l cs) = entry_totals (record_all l cs)"
proof (induction cs arbitrary: l)
  case Nil
  then show ?case by simp
next
  case (Cons c cs)
  have "agent_totals (apply_call l c) = entry_totals (apply_call l c)"
    unfolding apply_call_def using Cons.prems by (rule entry_totals_step)
  then show ?case using Cons.IH by simp
qed

lemma entry_totals_empty: "agent_totals empty_ledger = entry_totals empty_ledger"
  by (rule ext) (simp add: empty_ledger_def entry_totals_def records_of_def)

text \<open>
  C4: after any sequence of \<open>record_completion\<close> calls on an empty ledger, the totals
  kept for every agent are the sums over that agent's records: \<open>total_nectar\<close> is the
  sum of \<open>nectar_accrued\<close>, \<open>total_hours\<close> the sum of \<open>hours_worked\<close>,
  \<open>tasks_completed\<close> the number of records; an agent with no record has no totals.
  Each call appends one record and updates the totals of its agent in the same step.
\<close>

theorem agent_totals_equal_entry_sums:
  "agent_totals (record_all empty_ledger calls) a =
     (if records_of (record_all empty_ledger calls) a = [] then None
      else Some
        \<lparr>total_nectar =
           sum_list (map nectar_accrued (records_of (record_all empty_ledger calls) a)),
         total_hours =
           sum_list (map hours_worked (records_of (record_all empty_ledger calls) a)),
         tasks_completed = int (length (records_of (record_all empty_ledger calls) a))\<rparr>)
   \<and> length (records (record_all empty_ledger calls)) = length calls"
proof -
  have "agent_totals (record_all empty_ledger calls) = entry_totals (record_all empty_ledger calls)"
    using entry_totals_empty by (rule entry_totals_record_all)
  then have totals: "agent_totals (record_all empty_ledger calls) a
      = entry_totals (record_all empty_ledger calls) a" by simp
  have len: "length (records (record_all l calls)) = length (records l) + length calls" for l
  proof (induction calls arbitrary: l)
    case Nil
    then show ?case by simp
  next
    case (Cons c cs)
    have "length (records (apply_call l c)) = Suc (length (records l))"
      by (simp add: apply_call_def record_completion_def Let_def)
    then show ?case using Cons.IH [of "apply_call l c"] by simp
  qed
  from totals len [of empty_ledger] show ?thesis
    by (simp add: entry_totals_def empty_ledger_def)
qed

text \<open>
  C9: for every input, \<open>record_completion\<close> appends one record whose
  \<open>quality_multiplier\<close> is the quality score times 2.0 if tested, times 1.5 if
  wellness approved, times 2.0 if cross-repo, times 1.3 if documented, and whose
  \<open>nectar_accrued\<close> is the hours worked times 10.0 times that multiplier.
\<close>

theorem record_completion_multiplier:
  "\<exists>r. records (record_completion l a t h q tested wellness_approved cross_repo documented n)
          = records l @ [r]
     \<and> agent_name r = a \<and> hours_worked r = h \<and> base_rate r = 10.0
     \<and> quality_multiplier r =
         q * (if tested then 2.0 else 1) * (if wellness_approved then 1.5 else 1)
           * (if cross_repo then 2.0 else 1) * (if documented then 1.3 else 1)
     \<and> nectar_accrued r = h * 10.0 * quality_multiplier r"
  by (simp add: record_completion_def Let_def)

section \<open>Agents: \<^verbatim>\<open>agents/base_agent.py\<close>\<close>

datatype AgentStatus = IDLE | WORKING | DELIBERATING | REVIEWING | RECOVERY | OFFLINE

datatype TaskPriority = CRITICAL | HIGH | NORMAL | LOW

record AgentBiometrics =
  stress_level :: real
  cognitive_load :: real
  concurrent_tasks :: int
  hours_worked_today :: real
  last_break_timestamp :: real
  last_rest_timestamp :: real
  current_status :: AgentStatus

text \<open>The wellness thresholds: dataclass fields that no code of the repository assigns.\<close>

definition MAX_CONCURRENT_TASKS :: int where "MAX_CONCURRENT_TASKS = 3"
definition MAX_HOURS_PER_DAY :: real where "MAX_HOURS_PER_DAY = 8.0"
definition BREAK_INTERVAL_HOURS :: real where "BREAK_INTERVAL_HOURS = 4.0"
definition STRESS_THRESHOLD :: real where "STRESS_THRESHOLD = 0.7"

definition needs_break :: "AgentBiometrics \<Rightarrow> real \<Rightarrow> bool" where
  "needs_break b now =
     (let hours_since_break = (now - last_break_timestamp b) / 3600
      in hours_since_break \<ge> BREAK_INTERVAL_HOURS)"

definition needs_rest :: "AgentBiometrics \<Rightarrow> bool" where
  "needs_rest b =
     (stress_level b > STRESS_THRESHOLD \<or>
      hours_worked_today b \<ge> MAX_HOURS_PER_DAY \<or>
      cognitive_load b > 0.8)"

definition can_accept_task :: "AgentBiometrics \<Rightarrow> bool" where
  "can_accept_task b =
     (if concurrent_tasks b \<ge> MAX_CONCURRENT_TASKS then False
      else if needs_rest b then False
      else if current_status b = RECOVERY then False
      else True)"

record Task =
  t_id :: string
  t_title :: string
  t_description :: string
  t_repo :: string
  t_priority :: TaskPriority
  t_estimated_hours :: real
  t_dependencies :: "string list"
  t_assigned_at :: "real option"
  t_started_at :: "real option"
  t_completed_at :: "real option"
  t_status :: string
  t_nectar_accrued :: real
  t_quality_score :: real

text \<open>
  The briefing dictionary: the keys that the core reads, each present or absent, and
  whether the dictionary has any other key.
\<close>

record Briefing =
  critical_path :: "string list option"
  protected_notice :: "string option"
  build_stage :: "string option"
  other_keys :: bool

text \<open>The concrete class of an agent: it selects \<^verbatim>\<open>can_handle_task\<close>.\<close>

datatype agent_kind = VedaAgent | AuraAgent | HexAgent | NodeAgent | SparkAgent | TessAgent

text \<open>
  The state of a \<^verbatim>\<open>BaseAgent\<close>. \<open>tasks\<close>, \<open>task_history\<close> and \<open>current_task\<close>
  hold the value a task object has when it is stored. The two callbacks are never set
  in the repository and are left out.
\<close>

record BaseAgent =
  kind :: agent_kind
  name :: string
  specialization :: string
  capabilities :: "string list"
  hexagonal_position :: int
  biometrics :: AgentBiometrics
  tasks :: "string \<rightharpoonup> Task"
  task_history :: "Task list"
  current_task :: "Task option"
  total_hours_worked :: real
  total_nectar_accrued :: real
  deliberation_notes :: "string list"
  sofie_briefing :: "Briefing option"

text \<open>\<^verbatim>\<open>AgentBiometrics()\<close>: both timestamps are the time of creation.\<close>

definition new_biometrics :: "real \<Rightarrow> AgentBiometrics" where
  "new_biometrics now =
     \<lparr>stress_level = 0, cognitive_load = 0, concurrent_tasks = 0, hours_worked_today = 0,
      last_break_timestamp = now, last_rest_timestamp = now, current_status = IDLE\<rparr>"

text \<open>\<^verbatim>\<open>BaseAgent.__init__\<close>, called by the constructor of the class \<open>k\<close>.\<close>

definition base_agent_init ::
  "agent_kind \<Rightarrow> string \<Rightarrow> string \<Rightarrow> string list \<Rightarrow> int \<Rightarrow> real \<Rightarrow> BaseAgent" where
  "base_agent_init k nm spec caps pos now =
     \<lparr>kind = k, name = nm, specialization = spec, capabilities = caps,
      hexagonal_position = pos, biometrics = new_biometrics now, tasks = Map.empty,
      task_history = [], current_task = None, total_hours_worked = 0,
      total_nectar_accrued = 0, deliberation_notes = [], sofie_briefing = None\<rparr>"

definition receive_briefing_agent :: "BaseAgent \<Rightarrow> Briefing \<Rightarrow> BaseAgent" where
  "receive_briefing_agent self briefing =
     self\<lparr>sofie_briefing := Some briefing, deliberation_notes := []\<rparr>"

definition assign_task :: "BaseAgent \<Rightarrow> Task \<Rightarrow> real \<Rightarrow> BaseAgent \<times> bool" where
  "assign_task self task now =
     (if \<not> can_accept_task (biometrics self) then (self, False)
      else
        let task' = task\<lparr>t_assigned_at := Some now, t_status := ''pending''\<rparr>
        in (self\<lparr>tasks := (tasks self)(t_id task' \<mapsto> task'),
                 biometrics := (biometrics self)
                   \<lparr>concurrent_tasks := concurrent_tasks (biometrics self) + 1\<rparr>\<rparr>,
            True))"

definition start_task :: "BaseAgent \<Rightarrow> string \<Rightarrow> real \<Rightarrow> BaseAgent \<times> bool" where
  "start_task self tid now =
     (case tasks self tid of
        None \<Rightarrow> (self, False)
      | Some task \<Rightarrow>
          let task' = task\<lparr>t_started_at := Some now, t_status := ''in_progress''\<rparr>
          in (self\<lparr>tasks := (tasks self)(tid \<mapsto> task'),
                   current_task := Some task',
                   biometrics := (biometrics self)\<lparr>current_status := WORKING\<rparr>\<rparr>,
              True))"

text \<open>
  What \<^verbatim>\<open>complete_task\<close> returns: the error dictionary, or the completion report
  (its figures before rounding for display; the opaque \<^verbatim>\<open>result\<close> payload is left
  out).
\<close>

datatype completion_report =
    Task_not_found
  | Completion_report string string real real real real

definition complete_task ::
  "BaseAgent \<Rightarrow> string \<Rightarrow> real \<Rightarrow> real \<Rightarrow> BaseAgent \<times> completion_report" where
  "complete_task self tid quality_score now =
     (case tasks self tid of
        None \<Rightarrow> (self, Task_not_found)
      | Some task \<Rightarrow>
          let duration = (case t_started_at task of
                            Some started \<Rightarrow> (now - started) / 3600
                          | None \<Rightarrow> t_estimated_hours task);
              b = biometrics self;
              b = b\<lparr>concurrent_tasks := concurrent_tasks b - 1,
                     hours_worked_today := hours_worked_today b + duration,
                     cognitive_load := max 0 (cognitive_load b - 0.2)\<rparr>;
              idle = (concurrent_tasks b = 0);
              b = (if idle then b\<lparr>current_status := IDLE\<rparr> else b);
              base_nectar = 10.0 * duration;
              task' = task\<lparr>t_completed_at := Some now, t_status := ''completed'',
                           t_quality_score := quality_score,
                           t_nectar_accrued := base_nectar * quality_score\<rparr>;
              self' = self\<lparr>tasks := (tasks self)(tid \<mapsto> task'),
                           biometrics := b,
                           current_task := (if idle then None else current_task self),
                           total_hours_worked := total_hours_worked self + duration,
                           total_nectar_accrued :=
                             total_nectar_accrued self + t_nectar_accrued task',
                           task_history := task_history self @ [task']\<rparr>
          in (self',
              Completion_report tid (t_title task') duration quality_score
                (t_nectar_accrued task') (total_nectar_accrued self')))"

definition take_break :: "BaseAgent \<Rightarrow> real \<Rightarrow> BaseAgent" where
  "take_break self now =
     (let b = biometrics self;
          b = b\<lparr>current_status := RECOVERY, last_break_timestamp := now\<rparr>;
          b = b\<lparr>stress_level := max 0 (stress_level b - 0.3),
                 cognitive_load := max 0 (cognitive_load b - 0.3)\<rparr>;
          b = (if can_accept_task b then b\<lparr>current_status := IDLE\<rparr> else b)
      in self\<lparr>biometrics := b\<rparr>)"

definition rest :: "BaseAgent \<Rightarrow> real \<Rightarrow> BaseAgent" where
  "rest self now =
     self\<lparr>biometrics := (biometrics self)
       \<lparr>current_status := RECOVERY, stress_level := 0, cognitive_load := 0,
        last_rest_timestamp := now\<rparr>\<rparr>"

text \<open>
  One call of a public operation of an agent, with the clock reading it sees, and a
  sequence of calls. No operation yields control between a read and a write of
  \<open>concurrent_tasks\<close>, so every asynchronous schedule is such a sequence.
\<close>

datatype agent_op =
    Assign_task Task real
  | Start_task string real
  | Complete_task string real real
  | Take_break real
  | Rest real

fun agent_step :: "BaseAgent \<Rightarrow> agent_op \<Rightarrow> BaseAgent" where
  "agent_step a (Assign_task task now) = fst (assign_task a task now)"
| "agent_step a (Start_task tid now) = fst (start_task a tid now)"
| "agent_step a (Complete_task tid quality_score now) =
     fst (complete_task a tid quality_score now)"
| "agent_step a (Take_break now) = take_break a now"
| "agent_step a (Rest now) = rest a now"

fun agent_run :: "BaseAgent \<Rightarrow> agent_op list \<Rightarrow> BaseAgent" where
  "agent_run a [] = a"
| "agent_run a (op # ops) = agent_run (agent_step a op) ops"

subsection \<open>The capacity ceiling\<close>

lemma can_accept_task_below_max:
  "can_accept_task b \<Longrightarrow> concurrent_tasks b < MAX_CONCURRENT_TASKS"
  by (simp add: can_accept_task_def split: if_splits)

lemma assign_task_count:
  "concurrent_tasks (biometrics (fst (assign_task a task now))) =
     concurrent_tasks (biometrics a) + (if can_accept_task (biometrics a) then 1 else 0)"
  by (simp add: assign_task_def Let_def)

lemma agent_step_ceiling:
  assumes "concurrent_tasks (biometrics a) \<le> MAX_CONCURRENT_TASKS"
  shows "concurrent_tasks (biometrics (agent_step a op)) \<le> MAX_CONCURRENT_TASKS"
proof (cases op)
  case (Assign_task task now)
  show ?thesis
  proof (cases "can_accept_task (biometrics a)")
    case True
    then have "concurrent_tasks (biometrics a) < MAX_CONCURRENT_TASKS"
      by (rule can_accept_task_below_max)
    then show ?thesis using Assign_task True by (simp add: assign_task_count)
  next
    case False
    then show ?thesis using Assign_task assms by (simp add: assign_task_count)
  qed
next
  case (Start_task tid now)
  then show ?thesis using assms
    by (simp add: start_task_def Let_def split: option.splits)
next
  case (Complete_task tid quality_score now)
  then show ?thesis using assms
    by (simp add: complete_task_def Let_def split: option.splits)
next
  case (Take_break now)
  then show ?thesis using assms by (simp add: take_break_def Let_def)
next
  case (Rest now)
  then show ?thesis using assms by (simp add: rest_def)
qed

lemma agent_run_ceiling:
  "concurrent_tasks (biometrics a) \<le> MAX_CONCURRENT_TASKS \<Longrightarrow>
     concurrent_tasks (biometrics (agent_run a ops)) \<le> MAX_CONCURRENT_TASKS"
proof (induction ops arbitrary: a)
  case Nil
  then show ?case by simp
next
  case (Cons op ops)
  from Cons.prems have "concurrent_tasks (biometrics (agent_step a op)) \<le> MAX_CONCURRENT_TASKS"
    by (rule agent_step_ceiling)
  then show ?case using Cons.IH by simp
qed

text \<open>
  C3: for every agent, freshly created, and every sequence of the operations
  \<open>assign_task\<close>, \<open>start_task\<close>, \<open>complete_task\<close>, \<open>take_break\<close> and \<open>rest\<close>,
  \<open>concurrent_tasks\<close> never exceeds \<open>MAX_CONCURRENT_TASKS\<close>, which is 3.
  \<open>assign_task\<close> adds one to the count exactly when \<open>can_accept_task\<close> holds, and
  \<open>can_accept_task\<close> requires a count below 3.
\<close>

theorem concurrent_tasks_never_exceeds_max:
  "concurrent_tasks (biometrics (agent_run (base_agent_init k nm spec caps pos t0) ops))
     \<le> MAX_CONCURRENT_TASKS
   \<and> MAX_CONCURRENT_TASKS = 3
   \<and> concurrent_tasks (biometrics (fst (assign_task a task now))) =
       concurrent_tasks (biometrics a) + (if can_accept_task (biometrics a) then 1 else 0)
   \<and> snd (assign_task a task now) = can_accept_task (biometrics a)
   \<and> (can_accept_task (biometrics a) \<longrightarrow> concurrent_tasks (biometrics a) < 3)"
proof -
  have "concurrent_tasks (biometrics (base_agent_init k nm spec caps pos t0))
          \<le> MAX_CONCURRENT_TASKS"
    by (simp add: base_agent_init_def new_biometrics_def MAX_CONCURRENT_TASKS_def)
  then have run: "concurrent_tasks
      (biometrics (agent_run (base_agent_init k nm spec caps pos t0) ops))
        \<le> MAX_CONCURRENT_TASKS"
    by (rule agent_run_ceiling)
  have below: "can_accept_task (biometrics a) \<longrightarrow> concurrent_tasks (biometrics a) < 3"
    using can_accept_task_below_max [of "biometrics a"]
    by (simp add: MAX_CONCURRENT_TASKS_def)
  have accepted: "snd (assign_task a task now) = can_accept_task (biometrics a)"
    by (simp add: assign_task_def Let_def)
  from run below accepted assign_task_count [of a task now] show ?thesis
    by (simp add: MAX_CONCURRENT_TASKS_def)
qed

theorem concurrent_tasks_never_exceeds_max_witness:
  "can_accept_task (biometrics (base_agent_init VedaAgent ''veda'' ''Backend'' [] 0 0))
   \<and> concurrent_tasks (biometrics (base_agent_init VedaAgent ''veda'' ''Backend'' [] 0 0)) < 3
   \<and> concurrent_tasks (biometrics (agent_run
         (base_agent_init VedaAgent ''veda'' ''Backend'' [] 0 0)
         [Assign_task \<lparr>t_id = ''t1'', t_title = ''a'', t_description = ''a'',
            t_repo = ''pollen'', t_priority = HIGH, t_estimated_hours = 4,
            t_dependencies = [], t_assigned_at = None, t_started_at = None,
            t_completed_at = None, t_status = ''pending'', t_nectar_accrued = 0,
            t_quality_score = 1\<rparr> 1,
          Assign_task \<lparr>t_id = ''t2'', t_title = ''b'', t_description = ''b'',
            t_repo = ''pollen'', t_priority = HIGH, t_estimated_hours = 4,
            t_dependencies = [], t_assigned_at = None, t_started_at = None,
            t_completed_at = None, t_status = ''pending'', t_nectar_accrued = 0,
            t_quality_score = 1\<rparr> 2,
          Assign_task \<lparr>t_id = ''t3'', t_title = ''c'', t_description = ''c'',
            t_repo = ''pollen'', t_priority = HIGH, t_estimated_hours = 4,
            t_dependencies = [], t_assigned_at = None, t_started_at = None,
            t_completed_at = None, t_status = ''pending'', t_nectar_accrued = 0,
            t_quality_score = 1\<rparr> 3,
          Assign_task \<lparr>t_id = ''t4'', t_title = ''d'', t_description = ''d'',
            t_repo = ''pollen'', t_priority = HIGH, t_estimated_hours = 4,
            t_dependencies = [], t_assigned_at = None, t_started_at = None,
            t_completed_at = None, t_status = ''pending'', t_nectar_accrued = 0,
            t_quality_score = 1\<rparr> 4])) = 3"
proof -
  let ?a = "base_agent_init VedaAgent ''veda'' ''Backend'' [] 0 0"
  have ok: "can_accept_task (biometrics ?a)"
    by (simp add: base_agent_init_def new_biometrics_def can_accept_task_def needs_rest_def
        MAX_CONCURRENT_TASKS_def STRESS_THRESHOLD_def MAX_HOURS_PER_DAY_def)
  have below: "concurrent_tasks (biometrics ?a) < 3"
    using ok concurrent_tasks_never_exceeds_max [of VedaAgent "''veda''" "''Backend''" "[]" 0 0 "[]" ?a]
    by blast
  show ?thesis
    using ok below
    by (simp add: base_agent_init_def new_biometrics_def can_accept_task_def needs_rest_def
        assign_task_def Let_def
        MAX_CONCURRENT_TASKS_def STRESS_THRESHOLD_def MAX_HOURS_PER_DAY_def)
qed

section \<open>The six agents and their confidence scores\<close>

text \<open>\<^verbatim>\<open>str.lower()\<close> on ASCII text.\<close>

definition lower_char :: "char \<Rightarrow> char" where
  "lower_char c =
     (case map_of (zip ''ABCDEFGHIJKLMNOPQRSTUVWXYZ'' ''abcdefghijklmnopqrstuvwxyz'') c of
        Some l \<Rightarrow> l
      | None \<Rightarrow> c)"

definition lower :: "string \<Rightarrow> string" where
  "lower s = map lower_char s"

fun SPECIALIZATION_KEYWORDS :: "agent_kind \<Rightarrow> string list" where
  "SPECIALIZATION_KEYWORDS VedaAgent =
     [''backend'', ''api'', ''server'', ''database'', ''algorithm'',
      ''python'', ''node'', ''typescript'', ''logic'', ''core'',
      ''architecture'', ''schema'', ''migration'', ''orm'',
      ''microservice'', ''docker'', ''kubernetes'', ''infrastructure'']"
| "SPECIALIZATION_KEYWORDS AuraAgent =
     [''review'', ''validate'', ''audit'', ''test'', ''check'',
      ''wellness'', ''health'', ''stress'', ''calm'', ''accessibility'',
      ''documentation'', ''quality'', ''safety'', ''compliance'']"
| "SPECIALIZATION_KEYWORDS HexAgent =
     [''nectar'', ''token'', ''economic'', ''diligence'', ''ledger'',
      ''accrual'', ''reward'', ''compensation'', ''blockchain'', ''genesis'']"
| "SPECIALIZATION_KEYWORDS NodeAgent =
     [''docker'', ''kubernetes'', ''k8s'', ''devops'', ''ci/cd'', ''pipeline'',
      ''integration'', ''bridge'', ''api'', ''service'', ''port'', ''container'',
      ''deployment'', ''orchestration'', ''health'', ''monitoring'']"
| "SPECIALIZATION_KEYWORDS SparkAgent =
     [''frontend'', ''ui'', ''ux'', ''design'', ''css'', ''react'', ''vue'',
      ''component'', ''interface'', ''visual'', ''creative'', ''documentation'',
      ''template'', ''html'', ''responsive'', ''calm'', ''accessible'']"
| "SPECIALIZATION_KEYWORDS TessAgent =
     [''coordinate'', ''facilitate'', ''chair'', ''optimize'', ''balance'',
      ''timeline'', ''dependency'', ''conflict'', ''topology'', ''distribute'',
      ''manage'', ''resolve'', ''plan'', ''architecture'']"

text \<open>
  \<^verbatim>\<open>sum(1 for keyword in KEYWORDS if keyword in description_lower)\<close> and
  \<^verbatim>\<open>any(term in description_lower for term in [...])\<close>.
\<close>

definition count_matches :: "string list \<Rightarrow> string \<Rightarrow> nat" where
  "count_matches keywords description_lower =
     length [keyword \<leftarrow> keywords. str_contains keyword description_lower]"

definition any_term :: "string list \<Rightarrow> string \<Rightarrow> bool" where
  "any_term terms description_lower =
     list_ex (\<lambda>term. str_contains term description_lower) terms"

text \<open>\<^verbatim>\<open>can_handle_task\<close> of each of the six classes.\<close>

fun can_handle_task :: "agent_kind \<Rightarrow> string \<Rightarrow> real" where
  "can_handle_task VedaAgent task_description =
     (let description_lower = lower task_description;
          matches = count_matches (SPECIALIZATION_KEYWORDS VedaAgent) description_lower;
          confidence = min 1 (real matches / 3);
          confidence =
            (if any_term [''api'', ''backend'', ''server'', ''database''] description_lower
             then min 1 (confidence + 0.3) else confidence);
          confidence =
            (if any_term [''ui'', ''frontend'', ''css'', ''react component''] description_lower
             then confidence * 0.3 else confidence)
      in confidence)"
| "can_handle_task AuraAgent task_description =
     (let description_lower = lower task_description;
          matches = count_matches (SPECIALIZATION_KEYWORDS AuraAgent) description_lower;
          confidence = min 1 (real matches / 2);
          confidence =
            (if any_term [''review'', ''validate'', ''audit''] description_lower
             then min 1 (confidence + 0.4) else confidence)
      in confidence)"
| "can_handle_task HexAgent task_description =
     (let description_lower = lower task_description;
          matches = count_matches (SPECIALIZATION_KEYWORDS HexAgent) description_lower
      in min 1 (real matches / 2))"
| "can_handle_task NodeAgent task_description =
     (let description_lower = lower task_description;
          matches = count_matches (SPECIALIZATION_KEYWORDS NodeAgent) description_lower;
          confidence = min 1 (real matches / 3);
          confidence =
            (if str_contains ''bridge'' description_lower
                \<or> str_contains ''integration'' description_lower
             then min 1 (confidence + 0.4) else confidence)
      in confidence)"
| "can_handle_task SparkAgent task_description =
     (let description_lower = lower task_description;
          matches = count_matches (SPECIALIZATION_KEYWORDS SparkAgent) description_lower;
          confidence = min 1 (real matches / 2);
          confidence =
            (if any_term [''design'', ''ui'', ''ux'', ''creative''] description_lower
             then min 1 (confidence + 0.4) else confidence);
          confidence =
            (if any_term [''backend'', ''database'', ''algorithm''] description_lower
             then confidence * 0.2 else confidence)
      in confidence)"
| "can_handle_task TessAgent task_description =
     (let description_lower = lower task_description;
          matches = count_matches (SPECIALIZATION_KEYWORDS TessAgent) description_lower;
          confidence = min 1 (real matches / 2);
          confidence =
            (if any_term [''coordinate'', ''plan'', ''chair'', ''manage''] description_lower
             then min 1 (confidence + 0.4) else confidence)
      in confidence)"

fun CAPABILITIES :: "agent_kind \<Rightarrow> string list" where
  "CAPABILITIES VedaAgent =
     [''backend_development'', ''api_design'', ''database_schema'',
      ''algorithm_implementation'', ''code_refactoring'', ''test_writing'', ''python'',
      ''nodejs'', ''typescript'', ''sql'', ''docker'', ''microservices'']"
| "CAPABILITIES AuraAgent =
     [''wellness_validation'', ''code_review'', ''accessibility_audit'',
      ''stress_pattern_detection'', ''documentation_review'', ''dark_pattern_detection'',
      ''biometric_impact_assessment'', ''calm_architecture_validation'', ''veto_power'']"
| "CAPABILITIES HexAgent =
     [''nectar_tracking'', ''accrual_calculation'', ''genesis_preparation'',
      ''diligence_reporting'', ''economic_modeling'', ''consensus_participation'',
      ''ledger_maintenance'']"
| "CAPABILITIES NodeAgent =
     [''docker'', ''kubernetes'', ''cicd'', ''microservices'', ''api_integration'',
      ''devops'', ''service_mesh'', ''load_balancing'', ''health_checks'',
      ''port_management'', ''bridge_development'']"
| "CAPABILITIES SparkAgent =
     [''frontend_development'', ''ui_design'', ''ux_design'', ''css_architecture'',
      ''react'', ''vue'', ''html'', ''creative_writing'', ''documentation'',
      ''visual_design'', ''calm_architecture'', ''accessibility'', ''responsive_design'']"
| "CAPABILITIES TessAgent =
     [''meeting_facilitation'', ''task_optimization'', ''load_balancing'',
      ''dependency_management'', ''timeline_estimation'', ''conflict_resolution'',
      ''hexagonal_topology'', ''cross_repo_coordination'', ''technical_debt_tracking'',
      ''chair_authority'']"

text \<open>
  The constructors of the six classes: each calls \<^verbatim>\<open>BaseAgent.__init__\<close> with its
  name, specialization, capabilities and position in the hexagon. The state a subclass
  adds is kept with the ceremony where an operation of the core reads it.
\<close>

fun new_agent :: "agent_kind \<Rightarrow> real \<Rightarrow> BaseAgent" where
  "new_agent VedaAgent now =
     base_agent_init VedaAgent ''veda'' ''Backend Architecture & Complex Systems''
       (CAPABILITIES VedaAgent) 0 now"
| "new_agent AuraAgent now =
     base_agent_init AuraAgent ''aura'' ''Wellness Validation & QA with Absolute Veto''
       (CAPABILITIES AuraAgent) 1 now"
| "new_agent HexAgent now =
     base_agent_init HexAgent ''hex'' ''NECTAR Diligence Tracking & Tokenomics''
       (CAPABILITIES HexAgent) 2 now"
| "new_agent NodeAgent now =
     base_agent_init NodeAgent ''node'' ''DevOps & API Bridge Development''
       (CAPABILITIES NodeAgent) 3 now"
| "new_agent SparkAgent now =
     base_agent_init SparkAgent ''spark'' ''Frontend, UI/UX & Calm Architecture''
       (CAPABILITIES SparkAgent) 4 now"
| "new_agent TessAgent now =
     base_agent_init TessAgent ''tess'' ''Council Chair & Systems Architecture''
       (CAPABILITIES TessAgent) 5 now"

text \<open>The dictionary of agents, in insertion order.\<close>

type_synonym council = "(string \<times> BaseAgent) list"

definition create_council :: "real \<Rightarrow> council" where
  "create_council now =
     [(''veda'', new_agent VedaAgent now),
      (''aura'', new_agent AuraAgent now),
      (''hex'', new_agent HexAgent now),
      (''node'', new_agent NodeAgent now),
      (''spark'', new_agent SparkAgent now),
      (''tess'', new_agent TessAgent now)]"

section \<open>Routing and redistribution: \<^verbatim>\<open>agents/tess.py\<close>\<close>

subsection \<open>\<^verbatim>\<open>facilitate_deliberation\<close>\<close>

record Contender =
  c_agent :: string
  c_confidence :: real
  c_available :: bool

record Proposal =
  p_task :: string
  p_assigned_to :: string
  p_confidence :: real
  p_alternatives :: "string list"

record Conflict =
  cf_task :: string
  cf_between :: "string list"
  cf_resolution :: string

text \<open>
  The inner loop over \<^verbatim>\<open>agents.items()\<close>: every agent whose confidence is above the
  threshold of consideration, in the order of the dictionary.
\<close>

fun contenders_for :: "council \<Rightarrow> string \<Rightarrow> Contender list" where
  "contenders_for [] task_desc = []"
| "contenders_for ((nm, agent) # remaining) task_desc =
     (let confidence = can_handle_task (kind agent) task_desc
      in if confidence > 0.3
         then \<lparr>c_agent = nm, c_confidence = confidence,
               c_available = can_accept_task (biometrics agent)\<rparr>
              # contenders_for remaining task_desc
         else contenders_for remaining task_desc)"

text \<open>
  \<^verbatim>\<open>contenders.sort(key=lambda x: x["confidence"], reverse=True)\<close>: a stable sort,
  highest confidence first, equal confidences in their original order.
\<close>

definition sort_contenders :: "Contender list \<Rightarrow> Contender list" where
  "sort_contenders contenders = sort_key (\<lambda>x. - c_confidence x) contenders"

text \<open>
  The body of the loop over the critical path, for one task description: the proposal
  appended (none when \<^verbatim>\<open>best_agent\<close> is the empty string) and the conflict
  appended, if any.
\<close>

definition route_task :: "council \<Rightarrow> string \<Rightarrow> Proposal option \<times> Conflict option" where
  "route_task agents task_desc =
     (let contenders = sort_contenders (contenders_for agents task_desc);
          (best_agent, conflict) =
            (case contenders of
               c0 # c1 # others \<Rightarrow>
                 (if c_confidence c0 - c_confidence c1 < 0.2
                  then (c_agent c0,
                        Some \<lparr>cf_task = task_desc, cf_between = [c_agent c0, c_agent c1],
                              cf_resolution = ''tess_decides''\<rparr>)
                  else (c_agent c0, None))
             | [c0] \<Rightarrow> (c_agent c0, None)
             | [] \<Rightarrow> (''veda'', None))
      in (if best_agent \<noteq> []
          then Some \<lparr>p_task = task_desc, p_assigned_to = best_agent,
                     p_confidence = (case contenders of c0 # others \<Rightarrow> c_confidence c0
                                     | [] \<Rightarrow> 0.3),
                     p_alternatives = (if length contenders > 1
                                       then map c_agent (tl contenders) else [])\<rparr>
          else None,
          conflict))"

fun route_all :: "council \<Rightarrow> string list \<Rightarrow> Proposal list \<times> Conflict list" where
  "route_all agents [] = ([], [])"
| "route_all agents (task_desc # remaining) =
     (let (proposal, conflict) = route_task agents task_desc;
          (proposals, conflicts) = route_all agents remaining
      in ((case proposal of Some p \<Rightarrow> [p] | None \<Rightarrow> []) @ proposals,
          (case conflict of Some c \<Rightarrow> [c] | None \<Rightarrow> []) @ conflicts))"

text \<open>
  \<^verbatim>\<open>facilitate_deliberation\<close>. The briefing is that of the first agent of the
  dictionary; a first agent that never received one has \<^verbatim>\<open>None\<close>, on which
  \<^verbatim>\<open>.get\<close> raises. With no agent at all, the maximum of the stress levels is taken
  over nothing and raises. The \<^verbatim>\<open>DeliberationRecord\<close> appended to the history of
  the chair is left out.
\<close>

definition facilitate_deliberation :: "council \<Rightarrow> error + Proposal list \<times> Conflict list" where
  "facilitate_deliberation agents =
     (case agents of
        [] \<Rightarrow> Inl ValueError
      | (nm, first) # remaining \<Rightarrow>
          (case sofie_briefing first of
             None \<Rightarrow> Inl AttributeError
           | Some briefing \<Rightarrow>
               Inr (route_all agents
                      (case critical_path briefing of Some path \<Rightarrow> path | None \<Rightarrow> []))))"

subsection \<open>\<^verbatim>\<open>optimize_distribution\<close>\<close>

text \<open>
  An assignment dictionary: \<^verbatim>\<open>agent\<close> and \<^verbatim>\<open>task\<close> are always present, the other
  keys in some branches only. \<open>a_depends_on\<close> is set later, by
  \<^verbatim>\<open>coordinate_dependencies\<close>.
\<close>

record Assignment =
  a_agent :: string
  a_task :: string
  a_estimated_hours :: "real option"
  a_repo :: "string option"
  a_redistributed_from :: "string option"
  a_reason :: "string option"
  a_status :: "string option"
  a_depends_on :: "string list option"

definition estimate_hours :: "string \<Rightarrow> real" where
  "estimate_hours task =
     (if str_contains ''simple'' (lower task) \<or> str_contains ''docs'' (lower task) then 4.0
      else if str_contains ''complex'' (lower task)
              \<or> str_contains ''architecture'' (lower task) then 16.0
      else 8.0)"

definition determine_repo :: "string \<Rightarrow> string" where
  "determine_repo task =
     (let task_lower = lower task
      in if str_contains ''wellness'' task_lower then ''pollen''
         else if str_contains ''bridge'' task_lower \<or> str_contains ''api'' task_lower
              then ''terracare-bridge''
         else if str_contains ''hive'' task_lower then ''hive-api''
         else ''sandironratio-node'')"

text \<open>
  \<^verbatim>\<open>agent_loads\<close>: of each entry only \<^verbatim>\<open>available_capacity\<close> changes, so the model
  keeps that number per agent name.
\<close>

type_synonym loads = "string \<rightharpoonup> int"

fun agent_loads :: "council \<Rightarrow> loads" where
  "agent_loads [] = Map.empty"
| "agent_loads ((nm, agent) # remaining) =
     (agent_loads remaining)(nm \<mapsto> MAX_CONCURRENT_TASKS - concurrent_tasks (biometrics agent))"

text \<open>\<^verbatim>\<open>neighbor_map.get(overloaded_agent, [])\<close>.\<close>

definition neighbor_map :: "string \<Rightarrow> string list" where
  "neighbor_map overloaded_agent =
     (case map_of
        [(''veda'', [''tess'', ''aura'']),
         (''aura'', [''veda'', ''hex'']),
         (''hex'', [''aura'', ''node'']),
         (''node'', [''hex'', ''spark'']),
         (''spark'', [''node'', ''tess'']),
         (''tess'', [''spark'', ''veda''])] overloaded_agent of
        Some neighbors \<Rightarrow> neighbors
      | None \<Rightarrow> [])"

text \<open>
  The loop of \<^verbatim>\<open>_redistribute_to_neighbor\<close> over the neighbours still to try. A
  neighbour that is in \<^verbatim>\<open>agents\<close> and not in \<^verbatim>\<open>agent_loads\<close> raises.
\<close>

fun first_fit_neighbor ::
  "string list \<Rightarrow> string \<Rightarrow> council \<Rightarrow> loads \<Rightarrow> error + string option" where
  "first_fit_neighbor [] task agents lds = Inr None"
| "first_fit_neighbor (neighbor_name # remaining) task agents lds =
     (case map_of agents neighbor_name of
        None \<Rightarrow> first_fit_neighbor remaining task agents lds
      | Some neighbor \<Rightarrow>
          (case lds neighbor_name of
             None \<Rightarrow> Inl (KeyError neighbor_name)
           | Some available_capacity \<Rightarrow>
               if available_capacity \<le> 0 then first_fit_neighbor remaining task agents lds
               else if can_handle_task (kind neighbor) task > 0.3 then Inr (Some neighbor_name)
               else first_fit_neighbor remaining task agents lds))"

definition redistribute_to_neighbor ::
  "string \<Rightarrow> string \<Rightarrow> council \<Rightarrow> loads \<Rightarrow> error + string option" where
  "redistribute_to_neighbor overloaded_agent task agents lds =
     first_fit_neighbor (neighbor_map overloaded_agent) task agents lds"

text \<open>
  The first pass of \<^verbatim>\<open>optimize_distribution\<close>: the assignments so far and the loads
  are threaded through the loop over the proposals.
\<close>

fun distribute ::
  "council \<Rightarrow> Proposal list \<Rightarrow> loads \<Rightarrow> Assignment list \<Rightarrow> error + Assignment list \<times> loads"
  where
  "distribute agents [] lds assignments = Inr (assignments, lds)"
| "distribute agents (proposal # remaining) lds assignments =
     (let preferred = p_assigned_to proposal; task = p_task proposal
      in case lds preferred of
           None \<Rightarrow> Inl (KeyError preferred)
         | Some available_capacity \<Rightarrow>
             if available_capacity > 0
             then distribute agents remaining (lds(preferred \<mapsto> available_capacity - 1))
                    (assignments @
                     [\<lparr>a_agent = preferred, a_task = task,
                       a_estimated_hours = Some (estimate_hours task),
                       a_repo = Some (determine_repo task),
                       a_redistributed_from = None, a_reason = None, a_status = None,
                       a_depends_on = None\<rparr>])
             else
               (case redistribute_to_neighbor preferred task agents lds of
                  Inl e \<Rightarrow> Inl e
                | Inr (Some alternative) \<Rightarrow>
                    (case lds alternative of
                       None \<Rightarrow> Inl (KeyError alternative)
                     | Some capacity \<Rightarrow>
                         distribute agents remaining (lds(alternative \<mapsto> capacity - 1))
                           (assignments @
                            [\<lparr>a_agent = alternative, a_task = task,
                              a_estimated_hours = Some (estimate_hours task),
                              a_repo = Some (determine_repo task),
                              a_redistributed_from = Some preferred,
                              a_reason = Some ''preferred_agent_at_capacity'',
                              a_status = None, a_depends_on = None\<rparr>]))
                | Inr None \<Rightarrow>
                    distribute agents remaining lds
                      (assignments @
                       [\<lparr>a_agent = preferred, a_task = task,
                         a_estimated_hours = None, a_repo = None,
                         a_redistributed_from = None,
                         a_reason = Some ''waiting_for_capacity'',
                         a_status = Some ''queued'', a_depends_on = None\<rparr>])))"

text \<open>\<^verbatim>\<open>sum(a.get("estimated_hours", 4) for a in assignments)\<close>.\<close>

definition total_estimated_hours :: "Assignment list \<Rightarrow> real" where
  "total_estimated_hours assignments =
     sum_list (map (\<lambda>a. case a_estimated_hours a of Some h \<Rightarrow> h | None \<Rightarrow> 4) assignments)"

text \<open>
  \<^verbatim>\<open>_calculate_timeline\<close>: the total and the estimated days, before rounding. A
  dictionary of no agents divides by zero.
\<close>

record Timeline =
  tl_total_hours :: real
  tl_estimated_days :: real

definition calculate_timeline :: "Assignment list \<Rightarrow> council \<Rightarrow> error + Timeline" where
  "calculate_timeline assignments agents =
     (let hours_total = total_estimated_hours assignments;
          max_concurrent = length agents
      in if max_concurrent * 8 = 0 then Inl ZeroDivisionError
         else Inr \<lparr>tl_total_hours = hours_total,
                   tl_estimated_days = max 1 (hours_total / real (max_concurrent * 8))\<rparr>)"

record Optimized =
  o_assignments :: "Assignment list"
  o_timeline :: Timeline
  o_redistributions :: nat
  o_load_balance :: loads

definition optimize_distribution :: "Proposal list \<Rightarrow> council \<Rightarrow> error + Optimized" where
  "optimize_distribution proposals agents =
     (case distribute agents proposals (agent_loads agents) [] of
        Inl e \<Rightarrow> Inl e
      | Inr (assignments, lds) \<Rightarrow>
          (case calculate_timeline assignments agents of
             Inl e \<Rightarrow> Inl e
           | Inr timeline \<Rightarrow>
               Inr \<lparr>o_assignments = assignments, o_timeline = timeline,
                    o_redistributions =
                      length [a \<leftarrow> assignments. a_redistributed_from a \<noteq> None],
                    o_load_balance = lds\<rparr>))"

text \<open>
  \<^verbatim>\<open>convene_council\<close>, phase 1: every agent of the dictionary receives the briefing.
\<close>

fun brief_all :: "council \<Rightarrow> Briefing \<Rightarrow> council" where
  "brief_all [] briefing = []"
| "brief_all ((nm, agent) # remaining) briefing =
     (nm, receive_briefing_agent agent briefing) # brief_all remaining briefing"

subsection \<open>Routing by confidence\<close>

lemma contenders_for_filter:
  "map c_agent (contenders_for agents t) =
     map fst [na \<leftarrow> agents. 0.3 < can_handle_task (kind (snd na)) t]"
  by (induction agents t rule: contenders_for.induct) (simp_all add: Let_def)

lemma contenders_for_confidence:
  "c \<in> set (contenders_for agents t) \<Longrightarrow> 0.3 < c_confidence c"
  by (induction agents t rule: contenders_for.induct) (auto simp: Let_def split: if_splits)

lemma sort_contenders_length: "length (sort_contenders cs) = length cs"
  by (simp add: sort_contenders_def)

lemma sort_contenders_set: "set (sort_contenders cs) = set cs"
  by (simp add: sort_contenders_def)

lemma sort_contenders_head_max:
  assumes "sort_contenders cs = c0 # others" and "c \<in> set others"
  shows "c_confidence c \<le> c_confidence c0"
proof -
  have "sorted (map (\<lambda>x. - c_confidence x) (sort_contenders cs))"
    by (simp add: sort_contenders_def)
  with assms(1) have "sorted (map (\<lambda>x. - c_confidence x) (c0 # others))" by simp
  with assms(2) have "- c_confidence c0 \<le> - c_confidence c" by auto
  then show ?thesis by simp
qed

text \<open>
  C6, as the code has it: a task with no candidate above the threshold 0.3 goes to the
  default agent \<open>veda\<close>, with the confidence 0.3 recorded; a task with exactly one
  candidate goes to that candidate; a task with two or more goes to the first of the
  candidates sorted by falling confidence, which none of the others outscores, and a
  conflict between the first two is recorded exactly when their confidences differ by
  less than 0.2. The candidates are the agents whose confidence exceeds 0.3.
\<close>

theorem route_task_by_candidates:
  "map c_agent (contenders_for agents t) =
     map fst [na \<leftarrow> agents. 0.3 < can_handle_task (kind (snd na)) t]
   \<and> length (sort_contenders (contenders_for agents t)) = length (contenders_for agents t)
   \<and> (sort_contenders (contenders_for agents t) = [] \<longrightarrow>
        route_task agents t =
          (Some \<lparr>p_task = t, p_assigned_to = ''veda'', p_confidence = 0.3,
                 p_alternatives = []\<rparr>, None))
   \<and> (sort_contenders (contenders_for agents t) = [c] \<longrightarrow>
        route_task agents t =
          (if c_agent c = [] then None
           else Some \<lparr>p_task = t, p_assigned_to = c_agent c, p_confidence = c_confidence c,
                      p_alternatives = []\<rparr>, None))
   \<and> (sort_contenders (contenders_for agents t) = c0 # c1 # cs \<longrightarrow>
        list_all (\<lambda>c. c_confidence c \<le> c_confidence c0) (c1 # cs)
        \<and> fst (route_task agents t) =
            (if c_agent c0 = [] then None
             else Some \<lparr>p_task = t, p_assigned_to = c_agent c0,
                        p_confidence = c_confidence c0,
                        p_alternatives = map c_agent (c1 # cs)\<rparr>)
        \<and> snd (route_task agents t) =
            (if c_confidence c0 - c_confidence c1 < 0.2
             then Some \<lparr>cf_task = t, cf_between = [c_agent c0, c_agent c1],
                        cf_resolution = ''tess_decides''\<rparr>
             else None))"
proof -
  let ?cs = "sort_contenders (contenders_for agents t)"
  have none: "?cs = [] \<longrightarrow> route_task agents t =
          (Some \<lparr>p_task = t, p_assigned_to = ''veda'', p_confidence = 0.3,
                 p_alternatives = []\<rparr>, None)"
    by (simp add: route_task_def Let_def)
  have one: "?cs = [c] \<longrightarrow> route_task agents t =
          (if c_agent c = [] then None
           else Some \<lparr>p_task = t, p_assigned_to = c_agent c, p_confidence = c_confidence c,
                      p_alternatives = []\<rparr>, None)"
    by (simp add: route_task_def Let_def)
  have many: "?cs = c0 # c1 # cs \<longrightarrow>
        list_all (\<lambda>c. c_confidence c \<le> c_confidence c0) (c1 # cs)
        \<and> fst (route_task agents t) =
            (if c_agent c0 = [] then None
             else Some \<lparr>p_task = t, p_assigned_to = c_agent c0,
                        p_confidence = c_confidence c0,
                        p_alternatives = map c_agent (c1 # cs)\<rparr>)
        \<and> snd (route_task agents t) =
            (if c_confidence c0 - c_confidence c1 < 0.2
             then Some \<lparr>cf_task = t, cf_between = [c_agent c0, c_agent c1],
                        cf_resolution = ''tess_decides''\<rparr>
             else None)"
  proof
    assume shape: "?cs = c0 # c1 # cs"
    have top: "list_all (\<lambda>c. c_confidence c \<le> c_confidence c0) (c1 # cs)"
      unfolding list_all_iff using sort_contenders_head_max [OF shape] by blast
    have chosen: "fst (route_task agents t) =
            (if c_agent c0 = [] then None
             else Some \<lparr>p_task = t, p_assigned_to = c_agent c0,
                        p_confidence = c_confidence c0,
                        p_alternatives = map c_agent (c1 # cs)\<rparr>)"
      using shape by (simp add: route_task_def Let_def)
    have flagged: "snd (route_task agents t) =
            (if c_confidence c0 - c_confidence c1 < 0.2
             then Some \<lparr>cf_task = t, cf_between = [c_agent c0, c_agent c1],
                        cf_resolution = ''tess_decides''\<rparr>
             else None)"
      using shape by (simp add: route_task_def Let_def)
    from top chosen flagged show "list_all (\<lambda>c. c_confidence c \<le> c_confidence c0) (c1 # cs)
        \<and> fst (route_task agents t) =
            (if c_agent c0 = [] then None
             else Some \<lparr>p_task = t, p_assigned_to = c_agent c0,
                        p_confidence = c_confidence c0,
                        p_alternatives = map c_agent (c1 # cs)\<rparr>)
        \<and> snd (route_task agents t) =
            (if c_confidence c0 - c_confidence c1 < 0.2
             then Some \<lparr>cf_task = t, cf_between = [c_agent c0, c_agent c1],
                        cf_resolution = ''tess_decides''\<rparr>
             else None)"
      by blast
  qed
  from contenders_for_filter [of agents t] sort_contenders_length [of "contenders_for agents t"]
    none one many
  show ?thesis by blast
qed

subsection \<open>The scores of three task descriptions\<close>

lemma scores_complex:
  "map (\<lambda>k. can_handle_task k ''complex'')
     [VedaAgent, AuraAgent, HexAgent, NodeAgent, SparkAgent, TessAgent] = [0, 0, 0, 0, 0, 0]"
  by code_simp

lemma scores_coordinate:
  "map (\<lambda>k. can_handle_task k ''coordinate'')
     [VedaAgent, AuraAgent, HexAgent, NodeAgent, SparkAgent, TessAgent] = [0, 0, 0, 0, 0, 0.9]"
  by code_simp

lemma scores_review_plan:
  "map (\<lambda>k. can_handle_task k ''review plan'')
     [VedaAgent, AuraAgent, HexAgent, NodeAgent, SparkAgent, TessAgent]
     = [0, 0.9, 0, 0, 0, 0.9]"
  by code_simp

lemma fresh_can_accept: "can_accept_task (new_biometrics now)"
  by (simp add: new_biometrics_def can_accept_task_def needs_rest_def
        MAX_CONCURRENT_TASKS_def STRESS_THRESHOLD_def MAX_HOURS_PER_DAY_def)

lemma contenders_complex: "contenders_for (create_council 0) ''complex'' = []"
  using scores_complex
  by (simp add: create_council_def base_agent_init_def Let_def)

lemma contenders_coordinate:
  "contenders_for (create_council 0) ''coordinate'' =
     [\<lparr>c_agent = ''tess'', c_confidence = 0.9, c_available = True\<rparr>]"
  using scores_coordinate fresh_can_accept [of 0]
  by (simp add: create_council_def base_agent_init_def Let_def)

lemma contenders_review_plan:
  "sort_contenders (contenders_for (create_council 0) ''review plan'') =
     [\<lparr>c_agent = ''aura'', c_confidence = 0.9, c_available = True\<rparr>,
      \<lparr>c_agent = ''tess'', c_confidence = 0.9, c_available = True\<rparr>]"
  using scores_review_plan fresh_can_accept [of 0]
  by (simp add: create_council_def base_agent_init_def Let_def sort_contenders_def)

theorem route_task_by_candidates_witness:
  "sort_contenders (contenders_for (create_council 0) ''complex'') = []
   \<and> route_task (create_council 0) ''complex'' =
       (Some \<lparr>p_task = ''complex'', p_assigned_to = ''veda'', p_confidence = 0.3,
              p_alternatives = []\<rparr>, None)
   \<and> sort_contenders (contenders_for (create_council 0) ''coordinate'') =
       [\<lparr>c_agent = ''tess'', c_confidence = 0.9, c_available = True\<rparr>]
   \<and> route_task (create_council 0) ''coordinate'' =
       (Some \<lparr>p_task = ''coordinate'', p_assigned_to = ''tess'', p_confidence = 0.9,
              p_alternatives = []\<rparr>, None)
   \<and> sort_contenders (contenders_for (create_council 0) ''review plan'') =
       [\<lparr>c_agent = ''aura'', c_confidence = 0.9, c_available = True\<rparr>,
        \<lparr>c_agent = ''tess'', c_confidence = 0.9, c_available = True\<rparr>]
   \<and> route_task (create_council 0) ''review plan'' =
       (Some \<lparr>p_task = ''review plan'', p_assigned_to = ''aura'', p_confidence = 0.9,
              p_alternatives = [''tess'']\<rparr>,
        Some \<lparr>cf_task = ''review plan'', cf_between = [''aura'', ''tess''],
              cf_resolution = ''tess_decides''\<rparr>)"
proof -
  let ?tess = "\<lparr>c_agent = ''tess'', c_confidence = 0.9, c_available = True\<rparr>"
  let ?aura = "\<lparr>c_agent = ''aura'', c_confidence = 0.9, c_available = True\<rparr>"
  have none: "sort_contenders (contenders_for (create_council 0) ''complex'') = []"
    by (simp add: contenders_complex sort_contenders_def)
  have one: "sort_contenders (contenders_for (create_council 0) ''coordinate'') = [?tess]"
    by (simp add: contenders_coordinate sort_contenders_def)
  note many = contenders_review_plan
  have r0: "route_task (create_council 0) ''complex'' =
       (Some \<lparr>p_task = ''complex'', p_assigned_to = ''veda'', p_confidence = 0.3,
              p_alternatives = []\<rparr>, None)"
    using none route_task_by_candidates [of "create_council 0" "''complex''"] by blast
  have r1: "route_task (create_council 0) ''coordinate'' =
       (Some \<lparr>p_task = ''coordinate'', p_assigned_to = ''tess'', p_confidence = 0.9,
              p_alternatives = []\<rparr>, None)"
    using one route_task_by_candidates [of "create_council 0" "''coordinate''" ?tess]
    by simp
  have r2: "route_task (create_council 0) ''review plan'' =
       (Some \<lparr>p_task = ''review plan'', p_assigned_to = ''aura'', p_confidence = 0.9,
              p_alternatives = [''tess'']\<rparr>,
        Some \<lparr>cf_task = ''review plan'', cf_between = [''aura'', ''tess''],
              cf_resolution = ''tess_decides''\<rparr>)"
    using many
      route_task_by_candidates [of "create_council 0" "''review plan''" _ ?aura ?tess "[]"]
    by (simp add: prod_eq_iff)
  from none one many r0 r1 r2 show ?thesis by simp
qed

text \<open>
  Against C6 as stated: the task \<open>coordinate\<close> has one candidate only, the chair
  \<open>tess\<close>, and the deliberation of a freshly briefed council assigns it to \<open>tess\<close>,
  not to the default agent \<open>veda\<close>.
\<close>

theorem single_candidate_not_default:
  "length (contenders_for (create_council 0) ''coordinate'') < 2
   \<and> facilitate_deliberation
        (brief_all (create_council 0)
           \<lparr>critical_path = Some [''coordinate''], protected_notice = Some ''notice'',
            build_stage = None, other_keys = False\<rparr>)
       = Inr ([\<lparr>p_task = ''coordinate'', p_assigned_to = ''tess'', p_confidence = 0.9,
                p_alternatives = []\<rparr>], [])
   \<and> ''tess'' \<noteq> ''veda''"
proof -
  let ?b = "\<lparr>critical_path = Some [''coordinate''], protected_notice = Some ''notice'',
            build_stage = None, other_keys = False\<rparr>"
  have briefed: "contenders_for (brief_all (create_council 0) ?b) ''coordinate'' =
     [\<lparr>c_agent = ''tess'', c_confidence = 0.9, c_available = True\<rparr>]"
    using scores_coordinate fresh_can_accept [of 0]
    by (simp add: create_council_def base_agent_init_def receive_briefing_agent_def Let_def)
  have "route_task (brief_all (create_council 0) ?b) ''coordinate'' =
       (Some \<lparr>p_task = ''coordinate'', p_assigned_to = ''tess'', p_confidence = 0.9,
              p_alternatives = []\<rparr>, None)"
    by (simp add: route_task_def briefed sort_contenders_def Let_def)
  then have "facilitate_deliberation (brief_all (create_council 0) ?b)
       = Inr ([\<lparr>p_task = ''coordinate'', p_assigned_to = ''tess'', p_confidence = 0.9,
                p_alternatives = []\<rparr>], [])"
    by (simp add: facilitate_deliberation_def create_council_def base_agent_init_def
        receive_briefing_agent_def)
  then show ?thesis by (simp add: contenders_coordinate)
qed

subsection \<open>Redistribution to a neighbour of the ring\<close>

text \<open>
  In the words of the specification: a neighbour qualifies when it is an agent of the
  council, has spare capacity, and scores above the threshold 0.3 on the task.
\<close>

definition qualifies :: "council \<Rightarrow> loads \<Rightarrow> string \<Rightarrow> string \<Rightarrow> bool" where
  "qualifies agents lds task n =
     (case map_of agents n of
        None \<Rightarrow> False
      | Some neighbor \<Rightarrow>
          (case lds n of
             None \<Rightarrow> False
           | Some available_capacity \<Rightarrow>
               0 < available_capacity \<and> 0.3 < can_handle_task (kind neighbor) task))"

text \<open>Every agent of the dictionary has an entry in the loads.\<close>

definition loads_cover :: "council \<Rightarrow> loads \<Rightarrow> bool" where
  "loads_cover agents lds = list_all (\<lambda>na. lds (fst na) \<noteq> None) agents"

text \<open>The position in the hexagon of the agent of a given name.\<close>

definition position_of :: "council \<Rightarrow> string \<Rightarrow> int option" where
  "position_of agents n = map_option hexagonal_position (map_of agents n)"

text \<open>
  How one proposal is placed: with the preferred agent (assigned, or queued), or with a
  ring neighbour of the preferred agent, marked as redistributed from it.
\<close>

definition placed :: "Proposal \<Rightarrow> Assignment \<Rightarrow> bool" where
  "placed p a =
     (a_task a = p_task p \<and>
      (if a_redistributed_from a = None
       then a_agent a = p_assigned_to p \<and> (a_status a = None \<or> a_status a = Some ''queued'')
       else a_redistributed_from a = Some (p_assigned_to p)
            \<and> a_agent a \<in> set (neighbor_map (p_assigned_to p))
            \<and> a_status a = None))"

lemma loads_cover_lookup:
  "loads_cover agents lds \<Longrightarrow> map_of agents n = Some a \<Longrightarrow> lds n \<noteq> None"
proof -
  assume cover: "loads_cover agents lds" and "map_of agents n = Some a"
  then have "(n, a) \<in> set agents" by (simp add: map_of_SomeD)
  with cover show ?thesis by (auto simp: loads_cover_def list_all_iff)
qed

lemma loads_cover_update: "loads_cover agents lds \<Longrightarrow> loads_cover agents (lds(k \<mapsto> v))"
  by (simp add: loads_cover_def list_all_iff)

lemma agent_loads_dom: "(agent_loads agents n \<noteq> None) = (map_of agents n \<noteq> None)"
  by (induction agents) auto

lemma loads_cover_agent_loads: "loads_cover agents (agent_loads agents)"
proof -
  have "\<forall>na \<in> set agents. agent_loads agents (fst na) \<noteq> None"
  proof
    fix na assume "na \<in> set agents"
    then have "fst na \<in> fst ` set agents" by simp
    then have "map_of agents (fst na) \<noteq> None" by (simp add: map_of_eq_None_iff)
    then show "agent_loads agents (fst na) \<noteq> None"
      using agent_loads_dom [of agents "fst na"] by blast
  qed
  then show ?thesis by (simp add: loads_cover_def list_all_iff)
qed

lemma first_fit_neighbor_find:
  "loads_cover agents lds \<Longrightarrow>
     first_fit_neighbor ns t agents lds = Inr (find (qualifies agents lds t) ns)"
proof (induction ns)
  case Nil
  then show ?case by simp
next
  case (Cons n ns)
  show ?case
  proof (cases "map_of agents n")
    case None
    then show ?thesis using Cons by (simp add: qualifies_def)
  next
    case (Some a)
    then obtain cap where cap: "lds n = Some cap"
      using loads_cover_lookup [OF Cons.prems Some] by auto
    show ?thesis using Some cap Cons by (simp add: qualifies_def)
  qed
qed

lemma find_qualifies:
  "find (qualifies agents lds t) ns = Some n \<Longrightarrow> n \<in> set ns \<and> qualifies agents lds t n"
  by (auto simp: find_Some_iff)

lemma qualifies_has_load: "qualifies agents lds t n \<Longrightarrow> \<exists>c. lds n = Some c"
  by (auto simp: qualifies_def split: option.splits)

lemma distribute_placed:
  "loads_cover agents lds \<Longrightarrow> distribute agents ps lds acc = Inr (as, lds') \<Longrightarrow>
     \<exists>new. as = acc @ new \<and> list_all2 placed ps new"
proof (induction ps arbitrary: lds acc)
  case Nil
  then show ?case by simp
next
  case (Cons p ps)
  let ?pref = "p_assigned_to p"
  from Cons.prems(2) obtain cap where cap: "lds ?pref = Some cap"
    by (cases "lds ?pref") (auto simp: Let_def)
  show ?case
  proof (cases "0 < cap")
    case True
    let ?a = "\<lparr>a_agent = ?pref, a_task = p_task p,
               a_estimated_hours = Some (estimate_hours (p_task p)),
               a_repo = Some (determine_repo (p_task p)),
               a_redistributed_from = None, a_reason = None, a_status = None,
               a_depends_on = None\<rparr>"
    from Cons.prems(2) cap True
    have run: "distribute agents ps (lds(?pref \<mapsto> cap - 1)) (acc @ [?a]) = Inr (as, lds')"
      by (simp add: Let_def)
    from Cons.IH [OF loads_cover_update [OF Cons.prems(1)] run]
    obtain new where new: "as = (acc @ [?a]) @ new" "list_all2 placed ps new" by blast
    have "placed p ?a" by (simp add: placed_def)
    with new have "as = acc @ (?a # new) \<and> list_all2 placed (p # ps) (?a # new)" by simp
    then show ?thesis by blast
  next
    case False
    have ff: "redistribute_to_neighbor ?pref (p_task p) agents lds =
        Inr (find (qualifies agents lds (p_task p)) (neighbor_map ?pref))"
      unfolding redistribute_to_neighbor_def
      using Cons.prems(1) by (rule first_fit_neighbor_find)
    show ?thesis
    proof (cases "find (qualifies agents lds (p_task p)) (neighbor_map ?pref)")
      case None
      let ?a = "\<lparr>a_agent = ?pref, a_task = p_task p,
                 a_estimated_hours = None, a_repo = None, a_redistributed_from = None,
                 a_reason = Some ''waiting_for_capacity'',
                 a_status = Some ''queued'', a_depends_on = None\<rparr>"
      from Cons.prems(2) cap False ff None
      have run: "distribute agents ps lds (acc @ [?a]) = Inr (as, lds')"
        by (simp add: Let_def)
      from Cons.IH [OF Cons.prems(1) run]
      obtain new where new: "as = (acc @ [?a]) @ new" "list_all2 placed ps new" by blast
      have "placed p ?a" by (simp add: placed_def)
      with new have "as = acc @ (?a # new) \<and> list_all2 placed (p # ps) (?a # new)" by simp
      then show ?thesis by blast
    next
      case (Some n)
      then have n: "n \<in> set (neighbor_map ?pref)" "qualifies agents lds (p_task p) n"
        using find_qualifies by blast+
      then obtain c where c: "lds n = Some c" using qualifies_has_load by blast
      let ?a = "\<lparr>a_agent = n, a_task = p_task p,
                 a_estimated_hours = Some (estimate_hours (p_task p)),
                 a_repo = Some (determine_repo (p_task p)),
                 a_redistributed_from = Some ?pref,
                 a_reason = Some ''preferred_agent_at_capacity'',
                 a_status = None, a_depends_on = None\<rparr>"
      from Cons.prems(2) cap False ff Some c
      have run: "distribute agents ps (lds(n \<mapsto> c - 1)) (acc @ [?a]) = Inr (as, lds')"
        by (simp add: Let_def)
      from Cons.IH [OF loads_cover_update [OF Cons.prems(1)] run]
      obtain new where new: "as = (acc @ [?a]) @ new" "list_all2 placed ps new" by blast
      have "placed p ?a" using n(1) by (simp add: placed_def)
      with new have "as = acc @ (?a # new) \<and> list_all2 placed (p # ps) (?a # new)" by simp
      then show ?thesis by blast
    qed
  qed
qed

lemma distribute_returns:
  "loads_cover agents lds \<Longrightarrow> list_all (\<lambda>p. lds (p_assigned_to p) \<noteq> None) ps \<Longrightarrow>
     \<exists>r. distribute agents ps lds acc = Inr r"
proof (induction ps arbitrary: lds acc)
  case Nil
  then show ?case by simp
next
  case (Cons p ps)
  let ?pref = "p_assigned_to p"
  from Cons.prems(2) obtain cap where cap: "lds ?pref = Some cap" by auto
  have keep: "list_all (\<lambda>p. (lds(k \<mapsto> v)) (p_assigned_to p) \<noteq> None) ps" for k v
    using Cons.prems(2) by (simp add: list_all_iff)
  show ?case
  proof (cases "0 < cap")
    case True
    obtain r where "distribute agents ps (lds(?pref \<mapsto> cap - 1))
        (acc @ [\<lparr>a_agent = ?pref, a_task = p_task p,
               a_estimated_hours = Some (estimate_hours (p_task p)),
               a_repo = Some (determine_repo (p_task p)),
               a_redistributed_from = None, a_reason = None, a_status = None,
               a_depends_on = None\<rparr>]) = Inr r"
      using Cons.IH [OF loads_cover_update [OF Cons.prems(1)] keep] by blast
    then have "distribute agents (p # ps) lds acc = Inr r"
      using cap True by (simp add: Let_def)
    then show ?thesis by blast
  next
    case False
    have ff: "redistribute_to_neighbor ?pref (p_task p) agents lds =
        Inr (find (qualifies agents lds (p_task p)) (neighbor_map ?pref))"
      unfolding redistribute_to_neighbor_def
      using Cons.prems(1) by (rule first_fit_neighbor_find)
    show ?thesis
    proof (cases "find (qualifies agents lds (p_task p)) (neighbor_map ?pref)")
      case None
      have "list_all (\<lambda>p. lds (p_assigned_to p) \<noteq> None) ps" using Cons.prems(2) by simp
      then obtain r where "distribute agents ps lds
          (acc @ [\<lparr>a_agent = ?pref, a_task = p_task p,
                 a_estimated_hours = None, a_repo = None, a_redistributed_from = None,
                 a_reason = Some ''waiting_for_capacity'',
                 a_status = Some ''queued'', a_depends_on = None\<rparr>]) = Inr r"
        using Cons.IH [OF Cons.prems(1)] by blast
      then have "distribute agents (p # ps) lds acc = Inr r"
        using cap False ff None by (simp add: Let_def)
      then show ?thesis by blast
    next
      case (Some n)
      then have "qualifies agents lds (p_task p) n" using find_qualifies by blast
      then obtain c where c: "lds n = Some c" using qualifies_has_load by blast
      obtain r where "distribute agents ps (lds(n \<mapsto> c - 1))
          (acc @ [\<lparr>a_agent = n, a_task = p_task p,
                 a_estimated_hours = Some (estimate_hours (p_task p)),
                 a_repo = Some (determine_repo (p_task p)),
                 a_redistributed_from = Some ?pref,
                 a_reason = Some ''preferred_agent_at_capacity'',
                 a_status = None, a_depends_on = None\<rparr>]) = Inr r"
        using Cons.IH [OF loads_cover_update [OF Cons.prems(1)] keep] by blast
      then have "distribute agents (p # ps) lds acc = Inr r"
        using cap False ff Some c by (simp add: Let_def)
      then show ?thesis by blast
    qed
  qed
qed

lemma ring_neighbors:
  "map (position_of (create_council now)) (neighbor_map (name (new_agent k now))) =
     [Some ((hexagonal_position (new_agent k now) - 1) mod 6),
      Some ((hexagonal_position (new_agent k now) + 1) mod 6)]"
  by (cases k)
     (simp_all add: create_council_def neighbor_map_def position_of_def base_agent_init_def)

lemma distribute_at_capacity:
  assumes cover: "loads_cover agents lds"
    and cap: "lds (p_assigned_to p) = Some cap" "cap \<le> 0"
  shows "distribute agents (p # ps) lds acc =
     (case find (qualifies agents lds (p_task p)) (neighbor_map (p_assigned_to p)) of
        None \<Rightarrow>
          distribute agents ps lds
            (acc @ [\<lparr>a_agent = p_assigned_to p, a_task = p_task p,
                     a_estimated_hours = None, a_repo = None, a_redistributed_from = None,
                     a_reason = Some ''waiting_for_capacity'',
                     a_status = Some ''queued'', a_depends_on = None\<rparr>])
      | Some n \<Rightarrow>
          distribute agents ps
            (lds(n \<mapsto> (case lds n of Some c \<Rightarrow> c | None \<Rightarrow> 0) - 1))
            (acc @ [\<lparr>a_agent = n, a_task = p_task p,
                     a_estimated_hours = Some (estimate_hours (p_task p)),
                     a_repo = Some (determine_repo (p_task p)),
                     a_redistributed_from = Some (p_assigned_to p),
                     a_reason = Some ''preferred_agent_at_capacity'',
                     a_status = None, a_depends_on = None\<rparr>]))"
proof -
  have ff: "redistribute_to_neighbor (p_assigned_to p) (p_task p) agents lds =
      Inr (find (qualifies agents lds (p_task p)) (neighbor_map (p_assigned_to p)))"
    unfolding redistribute_to_neighbor_def using cover by (rule first_fit_neighbor_find)
  show ?thesis
  proof (cases "find (qualifies agents lds (p_task p)) (neighbor_map (p_assigned_to p))")
    case None
    then show ?thesis using cap ff by (simp add: Let_def)
  next
    case (Some n)
    then have "qualifies agents lds (p_task p) n" using find_qualifies by blast
    then obtain c where "lds n = Some c" using qualifies_has_load by blast
    then show ?thesis using cap ff Some by (simp add: Let_def)
  qed
qed

text \<open>
  C5: the two neighbours that \<open>neighbor_map\<close> gives an agent are the agents at its
  position minus one and plus one modulo 6, in that order. Redistribution returns the
  first of the two that is in the council, has spare capacity and scores above 0.3 on the
  task, and nothing when neither does. When the preferred agent of a proposal has no spare
  capacity, the assignment goes to that neighbour, or, when there is none, stays with
  the preferred agent marked \<open>queued\<close>. Every proposal gets exactly one assignment, to
  its preferred agent or to a ring neighbour of it, and the distribution returns whenever
  every preferred agent is an agent of a council that is not empty.
\<close>

theorem redistribution_to_ring_neighbors:
  "map (position_of (create_council now)) (neighbor_map (name (new_agent k now))) =
     [Some ((hexagonal_position (new_agent k now) - 1) mod 6),
      Some ((hexagonal_position (new_agent k now) + 1) mod 6)]
   \<and> (loads_cover agents lds \<longrightarrow>
        redistribute_to_neighbor preferred t agents lds =
          Inr (find (qualifies agents lds t) (neighbor_map preferred)))
   \<and> (loads_cover agents lds \<and> lds (p_assigned_to p) = Some cap \<and> cap \<le> 0 \<longrightarrow>
        distribute agents (p # ps) lds acc =
          (case find (qualifies agents lds (p_task p)) (neighbor_map (p_assigned_to p)) of
             None \<Rightarrow>
               distribute agents ps lds
                 (acc @ [\<lparr>a_agent = p_assigned_to p, a_task = p_task p,
                          a_estimated_hours = None, a_repo = None,
                          a_redistributed_from = None,
                          a_reason = Some ''waiting_for_capacity'',
                          a_status = Some ''queued'', a_depends_on = None\<rparr>])
           | Some n \<Rightarrow>
               distribute agents ps
                 (lds(n \<mapsto> (case lds n of Some c \<Rightarrow> c | None \<Rightarrow> 0) - 1))
                 (acc @ [\<lparr>a_agent = n, a_task = p_task p,
                          a_estimated_hours = Some (estimate_hours (p_task p)),
                          a_repo = Some (determine_repo (p_task p)),
                          a_redistributed_from = Some (p_assigned_to p),
                          a_reason = Some ''preferred_agent_at_capacity'',
                          a_status = None, a_depends_on = None\<rparr>])))
   \<and> (optimize_distribution proposals agents = Inr r \<longrightarrow>
        list_all2 placed proposals (o_assignments r))
   \<and> (agents \<noteq> [] \<and> list_all (\<lambda>p. map_of agents (p_assigned_to p) \<noteq> None) proposals \<longrightarrow>
        (\<exists>r. optimize_distribution proposals agents = Inr r))"
proof -
  have first_fit: "loads_cover agents lds \<longrightarrow>
        redistribute_to_neighbor preferred t agents lds =
          Inr (find (qualifies agents lds t) (neighbor_map preferred))"
    unfolding redistribute_to_neighbor_def using first_fit_neighbor_find by blast
  have all_placed: "optimize_distribution proposals agents = Inr r \<longrightarrow>
        list_all2 placed proposals (o_assignments r)"
  proof
    assume opt: "optimize_distribution proposals agents = Inr r"
    then obtain as lds' where d: "distribute agents proposals (agent_loads agents) [] = Inr (as, lds')"
      and r: "o_assignments r = as"
      by (auto simp: optimize_distribution_def split: sum.splits)
    from distribute_placed [OF loads_cover_agent_loads d]
    show "list_all2 placed proposals (o_assignments r)" using r by simp
  qed
  have returns: "agents \<noteq> [] \<and> list_all (\<lambda>p. map_of agents (p_assigned_to p) \<noteq> None) proposals
      \<longrightarrow> (\<exists>r. optimize_distribution proposals agents = Inr r)"
  proof
    assume a: "agents \<noteq> [] \<and> list_all (\<lambda>p. map_of agents (p_assigned_to p) \<noteq> None) proposals"
    then have "list_all (\<lambda>p. agent_loads agents (p_assigned_to p) \<noteq> None) proposals"
      unfolding list_all_iff using agent_loads_dom [of agents] by blast
    from distribute_returns [OF loads_cover_agent_loads this]
    obtain as lds' where "distribute agents proposals (agent_loads agents) [] = Inr (as, lds')"
      by fastforce
    moreover have "\<exists>tl. calculate_timeline as agents = Inr tl"
      using a by (simp add: calculate_timeline_def Let_def)
    ultimately show "\<exists>r. optimize_distribution proposals agents = Inr r"
      by (auto simp: optimize_distribution_def)
  qed
  from ring_neighbors [of now k] first_fit all_placed returns
    distribute_at_capacity [of agents lds p cap ps acc]
  show ?thesis by blast
qed

theorem redistribution_to_ring_neighbors_witness:
  "loads_cover (create_council 0) ((agent_loads (create_council 0))(''aura'' \<mapsto> 0))
   \<and> redistribute_to_neighbor ''aura'' ''review api'' (create_council 0)
         ((agent_loads (create_council 0))(''aura'' \<mapsto> 0)) = Inr (Some ''veda'')
   \<and> ((agent_loads (create_council 0))(''aura'' \<mapsto> 0)) ''aura'' = Some 0
   \<and> (case distribute (create_council 0)
               [\<lparr>p_task = ''review api'', p_assigned_to = ''aura'', p_confidence = 0.9,
                 p_alternatives = [''veda'', ''node'']\<rparr>]
               ((agent_loads (create_council 0))(''aura'' \<mapsto> 0)) [] of
          Inl e \<Rightarrow> False
        | Inr (as, l) \<Rightarrow>
            map (\<lambda>a. (a_agent a, a_redistributed_from a)) as = [(''veda'', Some ''aura'')])
   \<and> create_council 0 \<noteq> []
   \<and> list_all (\<lambda>p. map_of (create_council 0) (p_assigned_to p) \<noteq> None)
        (replicate 4 \<lparr>p_task = ''review api'', p_assigned_to = ''aura'', p_confidence = 0.9,
                       p_alternatives = [''veda'', ''node'']\<rparr>)
   \<and> (\<exists>r. optimize_distribution
              (replicate 4 \<lparr>p_task = ''review api'', p_assigned_to = ''aura'',
                             p_confidence = 0.9, p_alternatives = [''veda'', ''node'']\<rparr>)
              (create_council 0) = Inr r
          \<and> list_all2 placed
              (replicate 4 \<lparr>p_task = ''review api'', p_assigned_to = ''aura'',
                             p_confidence = 0.9, p_alternatives = [''veda'', ''node'']\<rparr>)
              (o_assignments r))"
proof -
  let ?C = "create_council 0"
  let ?L = "(agent_loads ?C)(''aura'' \<mapsto> 0)"
  let ?p = "\<lparr>p_task = ''review api'', p_assigned_to = ''aura'', p_confidence = 0.9,
             p_alternatives = [''veda'', ''node'']\<rparr>"
  have cover: "loads_cover ?C ?L" by code_simp
  have found: "find (qualifies ?C ?L ''review api'') (neighbor_map ''aura'') = Some ''veda''"
    by code_simp
  have load: "?L ''aura'' = Some 0" by simp
  have nonempty: "?C \<noteq> []" by (simp add: create_council_def)
  have known: "list_all (\<lambda>p. map_of ?C (p_assigned_to p) \<noteq> None) (replicate 4 ?p)"
    by (simp add: list_all_iff create_council_def)
  note spec = redistribution_to_ring_neighbors
    [of 0 VedaAgent ?C ?L "''aura''" "''review api''" ?p 0 "[]" "[]" "replicate 4 ?p"]
  have first: "redistribute_to_neighbor ''aura'' ''review api'' ?C ?L = Inr (Some ''veda'')"
    using spec cover found by simp
  have step: "distribute ?C [?p] ?L [] =
      distribute ?C [] (?L(''veda'' \<mapsto> (case ?L ''veda'' of Some c \<Rightarrow> c | None \<Rightarrow> 0) - 1))
        ([] @ [\<lparr>a_agent = ''veda'', a_task = p_task ?p,
                 a_estimated_hours = Some (estimate_hours (p_task ?p)),
                 a_repo = Some (determine_repo (p_task ?p)),
                 a_redistributed_from = Some (p_assigned_to ?p),
                 a_reason = Some ''preferred_agent_at_capacity'',
                 a_status = None, a_depends_on = None\<rparr>])"
  proof -
    have "loads_cover ?C ?L \<and> ?L (p_assigned_to ?p) = Some 0 \<and> (0::int) \<le> 0" using cover by simp
    moreover have "find (qualifies ?C ?L (p_task ?p)) (neighbor_map (p_assigned_to ?p))
        = Some ''veda''" using found by simp
    ultimately show ?thesis using spec by (simp only: option.case)
  qed
  have stepped: "case distribute ?C [?p] ?L [] of
          Inl e \<Rightarrow> False
        | Inr (as, l) \<Rightarrow>
            map (\<lambda>a. (a_agent a, a_redistributed_from a)) as = [(''veda'', Some ''aura'')]"
    by (simp only: step) simp
  obtain r where r: "optimize_distribution (replicate 4 ?p) ?C = Inr r"
    using spec nonempty known by blast
  have "list_all2 placed (replicate 4 ?p) (o_assignments r)"
    using r redistribution_to_ring_neighbors
      [of 0 VedaAgent ?C ?L "''aura''" "''review api''" ?p 0 "[]" "[]" "replicate 4 ?p" r]
    by blast
  with r have all: "\<exists>r. optimize_distribution (replicate 4 ?p) ?C = Inr r
          \<and> list_all2 placed (replicate 4 ?p) (o_assignments r)" by blast
  from cover first load stepped nonempty known all show ?thesis by blast
qed

section \<open>The ceremony: \<^verbatim>\<open>convening.py\<close>\<close>

subsection \<open>Dependencies, wellness, veto and estimate\<close>

text \<open>
  \<^verbatim>\<open>coordinate_dependencies\<close> of the chair. No assignment has the key
  \<^verbatim>\<open>task_id\<close>, so each dependency found is the default, the empty string.
\<close>

definition find_backend_tasks :: "Assignment list \<Rightarrow> string list" where
  "find_backend_tasks assignments =
     map (\<lambda>a. []) [a \<leftarrow> assignments. str_contains ''backend'' (lower (a_task a))]"

definition find_component_tasks :: "Assignment list \<Rightarrow> string list" where
  "find_component_tasks assignments =
     map (\<lambda>a. [])
       [a \<leftarrow> assignments. any_term [''component'', ''service'', ''api''] (lower (a_task a))]"

definition add_dependencies :: "Assignment list \<Rightarrow> Assignment \<Rightarrow> Assignment" where
  "add_dependencies assignments assignment =
     (let task = a_task assignment;
          assignment =
            (if str_contains ''bridge'' (lower task) \<or> str_contains ''api'' (lower task)
             then assignment\<lparr>a_depends_on := Some (find_backend_tasks assignments)\<rparr>
             else assignment);
          assignment =
            (if str_contains ''integration'' (lower task)
             then assignment\<lparr>a_depends_on := Some (find_component_tasks assignments)\<rparr>
             else assignment)
      in assignment)"

text \<open>\<^verbatim>\<open>a.get("depends_on")\<close> is true when the key is present with a list that is not empty.\<close>

definition has_dependencies :: "Assignment \<Rightarrow> bool" where
  "has_dependencies a = (case a_depends_on a of None \<Rightarrow> False | Some ds \<Rightarrow> ds \<noteq> [])"

definition topological_sort :: "Assignment list \<Rightarrow> Assignment list" where
  "topological_sort assignments =
     [a \<leftarrow> assignments. \<not> has_dependencies a] @ [a \<leftarrow> assignments. has_dependencies a]"

definition coordinate_dependencies :: "Assignment list \<Rightarrow> Assignment list" where
  "coordinate_dependencies assignments =
     topological_sort (map (add_dependencies assignments) assignments)"

text \<open>
  A concern of the wellness check, by its \<^verbatim>\<open>type\<close>: \<^verbatim>\<open>agent_overload\<close> with the
  agent, \<^verbatim>\<open>heavy_workload\<close> with the total of hours that its message quotes.
\<close>

datatype Concern = Agent_overload string | Heavy_workload real

fun overload_concerns :: "council \<Rightarrow> Assignment list \<Rightarrow> Concern list" where
  "overload_concerns ags [] = []"
| "overload_concerns ags (assignment # remaining) =
     (case map_of ags (a_agent assignment) of
        None \<Rightarrow> overload_concerns ags remaining
      | Some agent \<Rightarrow>
          if \<not> can_accept_task (biometrics agent)
          then Agent_overload (a_agent assignment) # overload_concerns ags remaining
          else overload_concerns ags remaining)"

record WellnessCheck =
  w_approved :: bool
  w_concerns :: "Concern list"

definition validate_deliberation_wellness :: "council \<Rightarrow> Assignment list \<Rightarrow> WellnessCheck" where
  "validate_deliberation_wellness ags assignments =
     (let concerns = overload_concerns ags assignments;
          sum_total = total_estimated_hours assignments;
          concerns =
            (if sum_total > 40 then concerns @ [Heavy_workload sum_total] else concerns)
      in \<lparr>w_approved = (length concerns = 0), w_concerns = concerns\<rparr>)"

text \<open>
  The veto declaration of \<^verbatim>\<open>AuraAgent.veto_proposal\<close>; its message is a function of
  the title and the reasons.
\<close>

record Veto =
  v_authority :: string
  v_proposal :: "string option"
  v_timestamp :: string
  v_reasons :: "Concern list"
  v_can_override :: bool
  v_requires_redesign :: bool

definition veto_proposal :: "string option \<Rightarrow> Concern list \<Rightarrow> string \<Rightarrow> Veto" where
  "veto_proposal title reasons now =
     \<lparr>v_authority = ''aura_absolute_veto'', v_proposal = title, v_timestamp = now,
      v_reasons = reasons, v_can_override = False, v_requires_redesign = True\<rparr>"

text \<open>
  \<^verbatim>\<open>HexAgent.calculate_accrual_estimate\<close>. It reads the keys
  \<^verbatim>\<open>estimated_duration\<close> and \<^verbatim>\<open>description\<close>, which no assignment has: the hours
  are the default 0 and the text searched for \<^verbatim>\<open>cross\<close> is empty.
\<close>

record NectarEstimate =
  ne_by_agent :: "string \<rightharpoonup> real \<times> real"
  ne_total_nectar :: real

fun accrual_loop ::
  "Assignment list \<Rightarrow> (string \<rightharpoonup> real \<times> real) \<Rightarrow> real \<Rightarrow> NectarEstimate" where
  "accrual_loop [] estimates sum_total =
     \<lparr>ne_by_agent = estimates, ne_total_nectar = sum_total\<rparr>"
| "accrual_loop (assignment # remaining) estimates sum_total =
     (let agent = a_agent assignment;
          hours = 0;
          estimated_nectar = hours * 10.0;
          estimated_nectar =
            (if str_contains ''cross'' (lower []) then estimated_nectar * 2.0
             else estimated_nectar);
          (h, n) = (case estimates agent of None \<Rightarrow> (0, 0) | Some hn \<Rightarrow> hn)
      in accrual_loop remaining (estimates(agent \<mapsto> (h + hours, n + estimated_nectar)))
           (sum_total + estimated_nectar))"

definition calculate_accrual_estimate :: "Assignment list \<Rightarrow> NectarEstimate" where
  "calculate_accrual_estimate assignments = accrual_loop assignments Map.empty 0"

subsection \<open>The state of the ceremony\<close>

datatype ConveningPhase =
    PHASE_IDLE | RECEIVING_BRIEFING | PHASE_DELIBERATING | PROPOSING
  | AWAITING_AUTHORIZATION | DEPLOYING | COMPLETE

datatype DeliberationRecord =
    Vetoed Veto
  | Completed "Assignment list" Timeline NectarEstimate

text \<open>
  The plan and the proposal. The objective, the snapshot of the agents' capacity and
  the constant strings of the proposal are left out.
\<close>

record CouncilPlan =
  pl_assignments :: "Assignment list"
  pl_total_timeline :: Timeline
  pl_total_diligence_accrual :: NectarEstimate

record CouncilProposal =
  cp_timestamp :: string
  cp_council_plan :: CouncilPlan
  cp_awaiting_authorization :: bool
  cp_authorized_by :: "string option"
  cp_authorized_at :: "string option"
  cp_rejected_at :: "string option"

text \<open>\<^verbatim>\<open>TessAgent.current_meeting\<close>.\<close>

record Meeting =
  m_started_at :: string
  m_briefing :: Briefing
  m_agents_present :: "string list"
  m_phase :: string

datatype DeploymentResult =
    Failed Assignment string
  | Deployed_task Assignment string string
  | Queued_task Assignment string

text \<open>What an operation of the ceremony returns.\<close>

datatype Reply =
    Error_reply string
  | Convened "string list"
  | Blocked Veto
  | Deliberated nat Timeline NectarEstimate
  | Proposed CouncilProposal
  | Authorized CouncilPlan
  | Rejected
  | Deployed "DeploymentResult list"

text \<open>
  \<^verbatim>\<open>CouncilConvening\<close>, with the state that the chair (\<open>tess_current_meeting\<close>) and
  the healer (\<open>aura_vetoes_issued\<close>) keep on their own objects.
\<close>

record CouncilConvening =
  agents :: council
  ledger :: DiligenceLedger
  phase :: ConveningPhase
  current_briefing :: "Briefing option"
  current_proposal :: "CouncilProposal option"
  deliberation_record :: "DeliberationRecord option"
  meeting_start :: "string option"
  tess_current_meeting :: "Meeting option"
  aura_vetoes_issued :: "Veto list"

definition new_convening :: "real \<Rightarrow> DiligenceLedger \<Rightarrow> CouncilConvening" where
  "new_convening now loaded =
     \<lparr>agents = create_council now, ledger = loaded, phase = PHASE_IDLE,
      current_briefing = None, current_proposal = None, deliberation_record = None,
      meeting_start = None, tess_current_meeting = None, aura_vetoes_issued = []\<rparr>"

subsection \<open>The operations of the ceremony\<close>

text \<open>
  Every operation returns the state it leaves and either the exception it raised or its
  reply: what an operation assigned before it raised stays assigned.
\<close>

definition receive_briefing ::
  "CouncilConvening \<Rightarrow> Briefing \<Rightarrow> string \<Rightarrow> CouncilConvening \<times> (error + Reply)" where
  "receive_briefing self briefing now =
     (let self = self\<lparr>phase := RECEIVING_BRIEFING, meeting_start := Some now\<rparr>
      in if critical_path briefing = None \<and> protected_notice briefing = None
            \<and> build_stage briefing = None \<and> \<not> other_keys briefing
         then (self, Inr (Error_reply ''Empty briefing received''))
         else
           let briefing =
                 (if protected_notice briefing = None
                     \<or> protected_notice briefing = Some []
                  then briefing\<lparr>protected_notice :=
                         Some (''sofie-llama-backend is sovereign territory - ''
                               @ ''council builds external interfaces only'')\<rparr>
                  else briefing);
               self = self\<lparr>current_briefing := Some briefing\<rparr>
           in case map_of (agents self) ''tess'' of
                None \<Rightarrow> (self, Inl (KeyError ''tess''))
              | Some tess \<Rightarrow>
                  (self\<lparr>tess_current_meeting :=
                          Some \<lparr>m_started_at = now, m_briefing = briefing,
                                m_agents_present = map fst (agents self),
                                m_phase = ''convened''\<rparr>,
                        agents := brief_all (agents self) briefing\<rparr>,
                   Inr (Convened (map fst (agents self)))))"

definition deliberate :: "CouncilConvening \<Rightarrow> string \<Rightarrow> CouncilConvening \<times> (error + Reply)" where
  "deliberate self now =
     (let self = self\<lparr>phase := PHASE_DELIBERATING\<rparr>
      in case map_of (agents self) ''tess'' of
           None \<Rightarrow> (self, Inl (KeyError ''tess''))
         | Some tess \<Rightarrow>
        (case facilitate_deliberation (agents self) of
           Inl e \<Rightarrow> (self, Inl e)
         | Inr (proposals, conflicts) \<Rightarrow>
        (case optimize_distribution proposals (agents self) of
           Inl e \<Rightarrow> (self, Inl e)
         | Inr optimized \<Rightarrow>
        (let with_dependencies = coordinate_dependencies (o_assignments optimized)
         in case map_of (agents self) ''aura'' of
           None \<Rightarrow> (self, Inl (KeyError ''aura''))
         | Some aura \<Rightarrow>
        (let wellness_check = validate_deliberation_wellness (agents self) with_dependencies
         in if \<not> w_approved wellness_check
            then
              let veto = veto_proposal (Some ''Council Plan'') (w_concerns wellness_check) now
              in (self\<lparr>aura_vetoes_issued := aura_vetoes_issued self @ [veto],
                       deliberation_record := Some (Vetoed veto)\<rparr>,
                  Inr (Blocked veto))
            else
              case map_of (agents self) ''hex'' of
                None \<Rightarrow> (self, Inl (KeyError ''hex''))
              | Some hex_agent \<Rightarrow>
                  let nectar_estimate = calculate_accrual_estimate with_dependencies
                  in (self\<lparr>deliberation_record :=
                             Some (Completed with_dependencies (o_timeline optimized)
                                     nectar_estimate)\<rparr>,
                      Inr (Deliberated (length with_dependencies) (o_timeline optimized)
                             nectar_estimate)))))))"

definition generate_proposal ::
  "CouncilConvening \<Rightarrow> string \<Rightarrow> CouncilConvening \<times> (error + Reply)" where
  "generate_proposal self now =
     (let self = self\<lparr>phase := PROPOSING\<rparr>
      in case deliberation_record self of
           None \<Rightarrow> (self, Inr (Error_reply ''No deliberation record found''))
         | Some record \<Rightarrow>
        (case map_of (agents self) ''tess'' of
           None \<Rightarrow> (self, Inl (KeyError ''tess''))
         | Some tess \<Rightarrow>
        (case record of
           Vetoed veto \<Rightarrow> (self, Inl (KeyError ''assignments''))
         | Completed assignments timeline nectar_estimate \<Rightarrow>
             let proposal =
                   \<lparr>cp_timestamp = now,
                    cp_council_plan =
                      \<lparr>pl_assignments = assignments, pl_total_timeline = timeline,
                       pl_total_diligence_accrual = nectar_estimate\<rparr>,
                    cp_awaiting_authorization = True, cp_authorized_by = None,
                    cp_authorized_at = None, cp_rejected_at = None\<rparr>
             in (self\<lparr>current_proposal := Some proposal, phase := AWAITING_AUTHORIZATION\<rparr>,
                 Inr (Proposed proposal)))))"

text \<open>\<^verbatim>\<open>authorize\<close>: the argument \<^verbatim>\<open>proposal_id\<close> is not read.\<close>

definition authorize ::
  "CouncilConvening \<Rightarrow> string \<Rightarrow> bool \<Rightarrow> string \<Rightarrow> CouncilConvening \<times> (error + Reply)" where
  "authorize self proposal_id authorized now =
     (case current_proposal self of
        None \<Rightarrow> (self, Inr (Error_reply ''No proposal to authorize''))
      | Some proposal \<Rightarrow>
          if authorized
          then
            let proposal = proposal\<lparr>cp_authorized_by := Some ''chief_architect'',
                                    cp_authorized_at := Some now,
                                    cp_awaiting_authorization := False\<rparr>
            in (self\<lparr>current_proposal := Some proposal\<rparr>,
                Inr (Authorized (cp_council_plan proposal)))
          else
            (self\<lparr>current_proposal := Some (proposal\<lparr>cp_rejected_at := Some now\<rparr>),
                  phase := PHASE_IDLE\<rparr>,
             Inr Rejected))"

text \<open>
  \<^verbatim>\<open>TessAgent.execute_deployment\<close>, the loop over the assignments of the plan. The
  \<open>i\<close>-th assignment reads the clock \<open>clock i\<close>: the time, and its text in the task id.
\<close>

fun set_agent :: "council \<Rightarrow> string \<Rightarrow> BaseAgent \<Rightarrow> council" where
  "set_agent [] nm agent = []"
| "set_agent ((n, a) # remaining) nm agent =
     (if n = nm then (n, agent) # remaining else (n, a) # set_agent remaining nm agent)"

fun deploy_assignments ::
  "Assignment list \<Rightarrow> council \<Rightarrow> (nat \<Rightarrow> real \<times> string) \<Rightarrow> nat
     \<Rightarrow> council \<times> DeploymentResult list" where
  "deploy_assignments [] ags clock i = (ags, [])"
| "deploy_assignments (assignment # remaining) ags clock i =
     (let agent_name = a_agent assignment
      in case map_of ags agent_name of
           None \<Rightarrow>
             (let (ags', results) = deploy_assignments remaining ags clock (Suc i)
              in (ags', Failed assignment agent_name # results))
         | Some agent \<Rightarrow>
             (let (now, stamp) = clock i;
                  task = \<lparr>t_id = ''council_'' @ agent_name @ ''_'' @ stamp,
                          t_title = a_task assignment,
                          t_description = a_task assignment,
                          t_repo = (case a_repo assignment of Some r \<Rightarrow> r
                                    | None \<Rightarrow> ''unknown''),
                          t_priority = HIGH,
                          t_estimated_hours = (case a_estimated_hours assignment of
                                                 Some h \<Rightarrow> h | None \<Rightarrow> 4),
                          t_dependencies = [], t_assigned_at = None, t_started_at = None,
                          t_completed_at = None, t_status = ''pending'',
                          t_nectar_accrued = 0, t_quality_score = 1\<rparr>;
                  (agent, assigned) = assign_task agent task now
              in if assigned
                 then
                   let (agent, started) = start_task agent (t_id task) now;
                       (ags', results) =
                         deploy_assignments remaining (set_agent ags agent_name agent)
                           clock (Suc i)
                   in (ags', Deployed_task assignment (t_id task) agent_name # results)
                 else
                   let (ags', results) = deploy_assignments remaining ags clock (Suc i)
                   in (ags', Queued_task assignment agent_name # results)))"

text \<open>
  \<^verbatim>\<open>deploy\<close>. After the loop the chair marks its meeting as deployed, which raises
  when it never convened one.
\<close>

definition deploy ::
  "CouncilConvening \<Rightarrow> (nat \<Rightarrow> real \<times> string) \<Rightarrow> CouncilConvening \<times> (error + Reply)" where
  "deploy self clock =
     (let self = self\<lparr>phase := DEPLOYING\<rparr>
      in case current_proposal self of
           None \<Rightarrow> (self, Inr (Error_reply ''No authorized proposal to deploy''))
         | Some proposal \<Rightarrow>
             if cp_authorized_by proposal = None \<or> cp_authorized_by proposal = Some []
             then (self, Inr (Error_reply ''No authorized proposal to deploy''))
             else
               (case map_of (agents self) ''tess'' of
                  None \<Rightarrow> (self, Inl (KeyError ''tess''))
                | Some tess \<Rightarrow>
                    let (ags, results) =
                          deploy_assignments (pl_assignments (cp_council_plan proposal))
                            (agents self) clock 0
                    in case tess_current_meeting self of
                         None \<Rightarrow> (self\<lparr>agents := ags\<rparr>, Inl TypeError)
                       | Some meeting \<Rightarrow>
                           (self\<lparr>agents := ags,
                                 tess_current_meeting :=
                                   Some (meeting\<lparr>m_phase := ''deployed''\<rparr>),
                                 phase := COMPLETE\<rparr>,
                            Inr (Deployed results))))"

subsection \<open>Veto of a heavy workload\<close>

text \<open>
  The assignments that \<open>deliberate\<close> produces before the wellness check: routed,
  distributed, and ordered by dependency.
\<close>

definition deliberation_assignments :: "council \<Rightarrow> error + Assignment list" where
  "deliberation_assignments ags =
     (case facilitate_deliberation ags of
        Inl e \<Rightarrow> Inl e
      | Inr (proposals, conflicts) \<Rightarrow>
          (case optimize_distribution proposals ags of
             Inl e \<Rightarrow> Inl e
           | Inr optimized \<Rightarrow> Inr (coordinate_dependencies (o_assignments optimized))))"

text \<open>
  A ceremony that has received a briefing of three tasks of 16 estimated hours each, all
  routed to the default agent.
\<close>

definition heavy_briefing :: Briefing where
  "heavy_briefing =
     \<lparr>critical_path = Some [''complex'', ''complex'', ''complex''],
      protected_notice = Some ''notice'', build_stage = None, other_keys = False\<rparr>"

definition heavy_convened :: CouncilConvening where
  "heavy_convened =
     fst (receive_briefing (new_convening 0 empty_ledger) heavy_briefing ''t0'')"

text \<open>
  C7, as the code has it: when the assignments produced during deliberation have total
  estimated hours above 40 (an assignment without an estimate counting 4),
  \<open>deliberate\<close> replies \<open>blocked\<close> with a veto whose reasons end with the concern
  \<open>heavy_workload\<close> carrying that total, and records the veto as the deliberation
  record. The phase stays at deliberating, where \<open>deliberate\<close> set it on entry, and no
  proposal is made.
\<close>

theorem heavy_workload_vetoed:
  "deliberation_assignments (agents s) = Inr asg
   \<and> map_of (agents s) ''tess'' \<noteq> None \<and> map_of (agents s) ''aura'' \<noteq> None
   \<and> 40 < total_estimated_hours asg \<longrightarrow>
     snd (deliberate s now) =
       Inr (Blocked (veto_proposal (Some ''Council Plan'')
              (overload_concerns (agents s) asg @ [Heavy_workload (total_estimated_hours asg)])
              now))
   \<and> Heavy_workload (total_estimated_hours asg) \<in>
       set (v_reasons (veto_proposal (Some ''Council Plan'')
              (overload_concerns (agents s) asg @ [Heavy_workload (total_estimated_hours asg)])
              now))
   \<and> deliberation_record (fst (deliberate s now)) =
       Some (Vetoed (veto_proposal (Some ''Council Plan'')
              (overload_concerns (agents s) asg @ [Heavy_workload (total_estimated_hours asg)])
              now))
   \<and> phase (fst (deliberate s now)) = PHASE_DELIBERATING
   \<and> current_proposal (fst (deliberate s now)) = current_proposal s"
proof
  assume h: "deliberation_assignments (agents s) = Inr asg
   \<and> map_of (agents s) ''tess'' \<noteq> None \<and> map_of (agents s) ''aura'' \<noteq> None
   \<and> 40 < total_estimated_hours asg"
  let ?veto = "veto_proposal (Some ''Council Plan'')
      (overload_concerns (agents s) asg @ [Heavy_workload (total_estimated_hours asg)]) now"
  from h obtain tess aura where tess: "map_of (agents s) ''tess'' = Some tess"
    and aura: "map_of (agents s) ''aura'' = Some aura" by auto
  from h obtain proposals conflicts optimized where
    fac: "facilitate_deliberation (agents s) = Inr (proposals, conflicts)" and
    opt: "optimize_distribution proposals (agents s) = Inr optimized" and
    asg: "asg = coordinate_dependencies (o_assignments optimized)"
    by (auto simp: deliberation_assignments_def split: sum.splits)
  have check: "validate_deliberation_wellness (agents s) asg =
      \<lparr>w_approved = False,
       w_concerns = overload_concerns (agents s) asg @ [Heavy_workload (total_estimated_hours asg)]\<rparr>"
    using h by (simp add: validate_deliberation_wellness_def Let_def)
  have run: "deliberate s now =
      (s\<lparr>phase := PHASE_DELIBERATING,
         aura_vetoes_issued := aura_vetoes_issued s @ [?veto],
         deliberation_record := Some (Vetoed ?veto)\<rparr>,
       Inr (Blocked ?veto))"
    using tess aura fac opt check asg
    by (simp add: deliberate_def Let_def)
  have reason: "Heavy_workload (total_estimated_hours asg) \<in> set (v_reasons ?veto)"
    by (simp add: veto_proposal_def)
  show "snd (deliberate s now) = Inr (Blocked ?veto)
   \<and> Heavy_workload (total_estimated_hours asg) \<in> set (v_reasons ?veto)
   \<and> deliberation_record (fst (deliberate s now)) = Some (Vetoed ?veto)
   \<and> phase (fst (deliberate s now)) = PHASE_DELIBERATING
   \<and> current_proposal (fst (deliberate s now)) = current_proposal s"
    using reason by (simp add: run)
qed

lemma heavy_assignments:
  "deliberation_assignments (agents heavy_convened) =
     Inr (replicate 3
       \<lparr>a_agent = ''veda'', a_task = ''complex'', a_estimated_hours = Some 16,
        a_repo = Some ''sandironratio-node'', a_redistributed_from = None,
        a_reason = None, a_status = None, a_depends_on = None\<rparr>)"
  by code_simp

lemma heavy_council_names:
  "map fst (agents heavy_convened) = [''veda'', ''aura'', ''hex'', ''node'', ''spark'', ''tess'']"
  by code_simp

theorem heavy_workload_vetoed_witness:
  "deliberation_assignments (agents heavy_convened) =
     Inr (replicate 3
       \<lparr>a_agent = ''veda'', a_task = ''complex'', a_estimated_hours = Some 16,
        a_repo = Some ''sandironratio-node'', a_redistributed_from = None,
        a_reason = None, a_status = None, a_depends_on = None\<rparr>)
   \<and> map_of (agents heavy_convened) ''tess'' \<noteq> None
   \<and> map_of (agents heavy_convened) ''aura'' \<noteq> None
   \<and> 40 < total_estimated_hours (replicate 3
       \<lparr>a_agent = ''veda'', a_task = ''complex'', a_estimated_hours = Some 16,
        a_repo = Some ''sandironratio-node'', a_redistributed_from = None,
        a_reason = None, a_status = None, a_depends_on = None\<rparr>)
   \<and> phase (fst (deliberate heavy_convened ''t1'')) = PHASE_DELIBERATING
   \<and> (\<exists>veto. snd (deliberate heavy_convened ''t1'') = Inr (Blocked veto)
         \<and> Heavy_workload 48 \<in> set (v_reasons veto)
         \<and> deliberation_record (fst (deliberate heavy_convened ''t1'')) = Some (Vetoed veto))"
proof -
  let ?a = "\<lparr>a_agent = ''veda'', a_task = ''complex'', a_estimated_hours = Some 16,
        a_repo = Some ''sandironratio-node'', a_redistributed_from = None,
        a_reason = None, a_status = None, a_depends_on = None\<rparr>"
  have "''tess'' \<in> set (map fst (agents heavy_convened))"
    by (simp only: heavy_council_names) simp
  then have "''tess'' \<in> fst ` set (agents heavy_convened)" by (simp only: set_map)
  then have tess: "map_of (agents heavy_convened) ''tess'' \<noteq> None"
    by (simp only: map_of_eq_None_iff not_not)
  have "''aura'' \<in> set (map fst (agents heavy_convened))"
    by (simp only: heavy_council_names) simp
  then have "''aura'' \<in> fst ` set (agents heavy_convened)" by (simp only: set_map)
  then have aura: "map_of (agents heavy_convened) ''aura'' \<noteq> None"
    by (simp only: map_of_eq_None_iff not_not)
  have hours: "total_estimated_hours (replicate 3 ?a) = 48"
    by (simp add: total_estimated_hours_def numeral_3_eq_3)
  from heavy_workload_vetoed [of heavy_convened "replicate 3 ?a" "''t1''"]
    heavy_assignments tess aura hours
  show ?thesis by (simp only: hours) auto
qed

text \<open>
  Against C7 as stated: a briefing whose three tasks sum to 48 estimated hours is vetoed
  for its heavy workload, and the phase after the veto is deliberating, not idle. A
  call of \<open>generate_proposal\<close> after the veto moves the phase on to proposing.
\<close>

theorem veto_leaves_phase_deliberating:
  "phase (fst (deliberate heavy_convened ''t1'')) = PHASE_DELIBERATING
   \<and> PHASE_DELIBERATING \<noteq> PHASE_IDLE
   \<and> (case snd (deliberate heavy_convened ''t1'') of
         Inr (Blocked veto) \<Rightarrow> v_reasons veto = [Heavy_workload 48]
       | _ \<Rightarrow> False)
   \<and> phase (fst (generate_proposal (fst (deliberate heavy_convened ''t1'')) ''t2''))
       = PROPOSING"
proof -
  have stays: "phase (fst (deliberate heavy_convened ''t1'')) = PHASE_DELIBERATING"
    by code_simp
  have blocked: "case snd (deliberate heavy_convened ''t1'') of
         Inr (Blocked veto) \<Rightarrow> v_reasons veto = [Heavy_workload 48]
       | _ \<Rightarrow> False"
    by code_simp
  have moves: "phase (fst (generate_proposal (fst (deliberate heavy_convened ''t1'')) ''t2''))
       = PROPOSING"
    by code_simp
  from stays blocked moves show ?thesis by simp
qed

subsection \<open>Rejection of a proposal\<close>

text \<open>
  A ceremony that has received a briefing of one task for the chair, deliberated, and
  generated its proposal; and the agents that a deployment has started a task on.
\<close>

definition light_briefing :: Briefing where
  "light_briefing =
     \<lparr>critical_path = Some [''coordinate''], protected_notice = Some ''notice'',
      build_stage = None, other_keys = False\<rparr>"

definition light_proposed :: CouncilConvening where
  "light_proposed =
     fst (generate_proposal
       (fst (deliberate
         (fst (receive_briefing (new_convening 0 empty_ledger) light_briefing ''t0''))
         ''t1''))
       ''t2'')"

definition deployed_agents :: "error + Reply \<Rightarrow> string list option" where
  "deployed_agents r =
     (case r of
        Inr (Deployed results) \<Rightarrow>
          Some (concat (map (\<lambda>d. case d of Deployed_task a tid n \<Rightarrow> [n] | _ \<Rightarrow> []) results))
      | _ \<Rightarrow> None)"

text \<open>
  C8, as the code has it: when \<open>authorize\<close> is called with \<open>authorized\<close> false while
  a proposal exists, the phase goes back to idle and the reply is the rejection; the
  proposal is kept, stamped with the time of rejection. A deployment that follows is
  refused, and changes no agent, when the proposal was never authorized.
\<close>

theorem rejection_returns_to_idle:
  "current_proposal s = Some p \<longrightarrow>
     phase (fst (authorize s pid False now)) = PHASE_IDLE
   \<and> snd (authorize s pid False now) = Inr Rejected
   \<and> current_proposal (fst (authorize s pid False now))
       = Some (p\<lparr>cp_rejected_at := Some now\<rparr>)
   \<and> agents (fst (authorize s pid False now)) = agents s
   \<and> (cp_authorized_by p = None \<longrightarrow>
        snd (deploy (fst (authorize s pid False now)) clock)
          = Inr (Error_reply ''No authorized proposal to deploy'')
        \<and> agents (fst (deploy (fst (authorize s pid False now)) clock)) = agents s)"
proof
  assume p: "current_proposal s = Some p"
  have rejected: "authorize s pid False now =
      (s\<lparr>current_proposal := Some (p\<lparr>cp_rejected_at := Some now\<rparr>), phase := PHASE_IDLE\<rparr>,
       Inr Rejected)"
    using p by (simp add: authorize_def)
  have refused: "cp_authorized_by p = None \<longrightarrow>
        snd (deploy (fst (authorize s pid False now)) clock)
          = Inr (Error_reply ''No authorized proposal to deploy'')
        \<and> agents (fst (deploy (fst (authorize s pid False now)) clock)) = agents s"
    by (simp add: rejected deploy_def Let_def)
  show "phase (fst (authorize s pid False now)) = PHASE_IDLE
   \<and> snd (authorize s pid False now) = Inr Rejected
   \<and> current_proposal (fst (authorize s pid False now))
       = Some (p\<lparr>cp_rejected_at := Some now\<rparr>)
   \<and> agents (fst (authorize s pid False now)) = agents s
   \<and> (cp_authorized_by p = None \<longrightarrow>
        snd (deploy (fst (authorize s pid False now)) clock)
          = Inr (Error_reply ''No authorized proposal to deploy'')
        \<and> agents (fst (deploy (fst (authorize s pid False now)) clock)) = agents s)"
    using refused by (simp add: rejected)
qed

theorem rejection_returns_to_idle_witness:
  "(\<exists>p. current_proposal light_proposed = Some p \<and> cp_authorized_by p = None)
   \<and> phase light_proposed = AWAITING_AUTHORIZATION
   \<and> phase (fst (authorize light_proposed ''proposal'' False ''t3'')) = PHASE_IDLE
   \<and> snd (deploy (fst (authorize light_proposed ''proposal'' False ''t3''))
             (\<lambda>i. (5, ''5.0'')))
       = Inr (Error_reply ''No authorized proposal to deploy'')
   \<and> agents (fst (deploy (fst (authorize light_proposed ''proposal'' False ''t3''))
                (\<lambda>i. (5, ''5.0''))))
       = agents light_proposed"
proof -
  have "case current_proposal light_proposed of
          None \<Rightarrow> False
        | Some p \<Rightarrow> cp_authorized_by p = None"
    by code_simp
  then obtain p where p: "current_proposal light_proposed = Some p"
    and fresh: "cp_authorized_by p = None"
    by (cases "current_proposal light_proposed") auto
  have waiting: "phase light_proposed = AWAITING_AUTHORIZATION" by code_simp
  from rejection_returns_to_idle
    [of light_proposed p "''proposal''" "''t3''" "\<lambda>i. (5, ''5.0'')"] p fresh waiting
  show ?thesis by blast
qed

text \<open>
  Against C8 as stated: a proposal that is authorized and then rejected is still the
  current proposal after the rejection, and a deployment that follows the rejection
  acts on it: it completes and starts the task on the chair.
\<close>

definition rejected_after_authorized :: CouncilConvening where
  "rejected_after_authorized =
     fst (authorize (fst (authorize light_proposed ''proposal'' True ''t3''))
            ''proposal'' False ''t4'')"

theorem rejected_proposal_deployed:
  "phase rejected_after_authorized = PHASE_IDLE
   \<and> (case current_proposal rejected_after_authorized of
         None \<Rightarrow> False
       | Some p \<Rightarrow> cp_rejected_at p = Some ''t4'')
   \<and> phase (fst (deploy rejected_after_authorized (\<lambda>i. (5, ''5.0'')))) = COMPLETE
   \<and> deployed_agents (snd (deploy rejected_after_authorized (\<lambda>i. (5, ''5.0''))))
       = Some [''tess'']
   \<and> map (\<lambda>na. (fst na, concurrent_tasks (biometrics (snd na))))
         (agents (fst (deploy rejected_after_authorized (\<lambda>i. (5, ''5.0'')))))
       = [(''veda'', 0), (''aura'', 0), (''hex'', 0), (''node'', 0), (''spark'', 0),
          (''tess'', 1)]"
proof -
  have idle: "phase rejected_after_authorized = PHASE_IDLE" by code_simp
  have kept: "case current_proposal rejected_after_authorized of
         None \<Rightarrow> False
       | Some p \<Rightarrow> cp_rejected_at p = Some ''t4''"
    by code_simp
  have complete: "phase (fst (deploy rejected_after_authorized (\<lambda>i. (5, ''5.0'')))) = COMPLETE"
    by code_simp
  have acted: "deployed_agents (snd (deploy rejected_after_authorized (\<lambda>i. (5, ''5.0''))))
       = Some [''tess'']"
    by code_simp
  have loaded: "map (\<lambda>na. (fst na, concurrent_tasks (biometrics (snd na))))
         (agents (fst (deploy rejected_after_authorized (\<lambda>i. (5, ''5.0'')))))
       = [(''veda'', 0), (''aura'', 0), (''hex'', 0), (''node'', 0), (''spark'', 0),
          (''tess'', 1)]"
    by code_simp
  from idle kept complete acted loaded show ?thesis by simp
qed

end
